theory Spec2Isabelle
  imports Main "HOL-Library.AList"
begin

section \<open>Data model of the daemon (daemon/run.ts)\<close>

text \<open>
  The daemon keeps two module-level JavaScript \<open>Map\<close>s, both keyed by the OS pid:
  \<open>pidToTrackedSession\<close> and \<open>pidToAwaiter\<close>. A JavaScript \<open>Map\<close> iterates in insertion
  order, \<open>set\<close> on a present key keeps the key's position and \<open>delete\<close> removes it, which is
  what \<open>AList.update\<close>, \<open>AList.delete\<close> and \<open>map_of\<close> do on an association list.

  Pids are JavaScript numbers; the model takes the integers among them.
\<close>

text \<open>The part of \<open>Metadata\<close> (api/types.ts) the daemon reads, with a few of the other fields.\<close>

record Metadata =
  path :: string
  host :: string
  homeDir :: string
  hostPid :: "int option"

text \<open>
  \<open>startedBy\<close> of a tracked session is the string \<open>'daemon'\<close> or the string
  \<open>'happy directly - likely by user from terminal'\<close>.
\<close>

datatype StartedBy = Daemon | HappyDirectly

text \<open>The handle of a child process the daemon launched; it is known by its pid.\<close>

datatype ChildProcess = ChildProcess int

record TrackedSession =
  startedBy :: StartedBy
  happySessionId :: "string option"
  happySessionMetadataFromLocalWebhook :: "Metadata option"
  pid :: int
  childProcess :: "ChildProcess option"
  directoryCreated :: "bool option"
  message :: "string option"

text \<open>\<open>SpawnSessionResult\<close>: the tagged union a spawn call resolves with.\<close>

datatype SpawnSessionResult =
  Success "string option"
| Error string
| RequestToApproveDirectoryCreation string

text \<open>One call of \<open>spawnHappyCLI\<close>: the arguments, and the options \<open>cwd\<close>, \<open>detached\<close>, \<open>env\<close>.\<close>

record Launch =
  args :: "string list"
  cwd :: string
  detached :: bool
  env :: "string \<rightharpoonup> string"

text \<open>
  A \<open>SIGTERM\<close> the daemon tried to send, through the child handle
  (\<open>session.childProcess.kill\<close>) or to the pid (\<open>process.kill\<close>).
\<close>

datatype KillCall = ChildKill int | ProcessKill int

text \<open>
  \<open>SpawnSessionOptions\<close>, as \<open>spawnSession\<close> reads it; an absent field is \<open>None\<close>. The
  fields \<open>sessionId\<close> and \<open>machineId\<close> are destructured and never read.
\<close>

record SpawnSessionOptions =
  directory :: string
  approvedNewDirectoryCreation :: "bool option"
  token :: "string option"
  agent :: "string option"
  environmentVariables :: "(string \<rightharpoonup> string) option"
  resumeClaudeSessionId :: "string option"
  forkSession :: "bool option"

text \<open>The error codes of \<open>fs.mkdir\<close> the spawner tells apart; any other error keeps its text.\<close>

datatype MkdirError = EACCES | ENOTDIR | ENOSPC | EROFS | OtherError string

text \<open>
  What the host answers during one call of \<open>spawnSession\<close>: whether \<open>fs.mkdir\<close> throws,
  the directory \<open>tmp.dirSync()\<close> makes (or the message it throws), and the pid of the
  process \<open>spawnHappyCLI\<close> returns (or the message it throws). \<open>Inl\<close> is the thrown error.
\<close>

record HostAnswers =
  mkdirResult :: "MkdirError option"
  tmpDirSync :: "string + string"
  spawnHappyCLI :: "string + int option"

text \<open>
  An \<open>async\<close> call either returns its result without waiting for any event, or returns the
  pending promise of the numbered call.
\<close>

datatype SpawnReturn = Returned SpawnSessionResult | Pending nat

text \<open>
  The state the closures of \<open>startDaemon\<close> share, with the parts of the host they act on.
  Every call of \<open>spawnSession\<close> that reaches its final \<open>new Promise\<close> gets a number
  (\<open>nextCall\<close>): the awaiter stored in \<open>pidToAwaiter\<close> is the closure of that call, known here
  by the call's number; \<open>timers\<close> holds the calls whose 15 second timeout is armed, with the
  pid it was armed for; \<open>resolved\<close> holds the value each call's promise was resolved with.
\<close>

record daemon =
  pidToTrackedSession :: "(int \<times> TrackedSession) list"
  pidToAwaiter :: "(int \<times> nat) list"
  timers :: "(nat \<times> int) list"
  resolved :: "(nat \<times> SpawnSessionResult) list"
  nextCall :: nat
  existingPaths :: "string set"
  mkdirCalls :: "(string \<times> bool) list"
  processEnv :: "string \<rightharpoonup> string"
  launches :: "Launch list"
  writtenFiles :: "(string \<times> string) list"
  signals :: "(KillCall \<times> bool) list"

section \<open>Promises and timers\<close>

text \<open>A promise settles once: \<open>resolve\<close> on a settled promise does nothing.\<close>

definition resolve :: "nat \<Rightarrow> SpawnSessionResult \<Rightarrow> daemon \<Rightarrow> daemon" where
  "resolve c r s =
     (case map_of (resolved s) c of
        Some _ \<Rightarrow> s
      | None \<Rightarrow> s\<lparr>resolved := AList.update c r (resolved s)\<rparr>)"

definition clearTimeout :: "nat \<Rightarrow> daemon \<Rightarrow> daemon" where
  "clearTimeout c s = s\<lparr>timers := AList.delete c (timers s)\<rparr>"

text \<open>
  The awaiter a spawn call registers:
  \<^verbatim>\<open>(completedSession) => { clearTimeout(timeout); resolve({type: 'success', sessionId: completedSession.happySessionId!}) }\<close>
\<close>

definition awaiter :: "nat \<Rightarrow> TrackedSession \<Rightarrow> daemon \<Rightarrow> daemon" where
  "awaiter c completedSession s =
     resolve c (Success (happySessionId completedSession)) (clearTimeout c s)"

section \<open>The self-report webhook\<close>

text \<open>The \<open>trackedSession\<close> the webhook builds for a pid the registry does not know.\<close>

definition externalSession :: "string \<Rightarrow> Metadata \<Rightarrow> int \<Rightarrow> TrackedSession" where
  "externalSession sessionId sessionMetadata p =
     \<lparr>startedBy = HappyDirectly,
      happySessionId = Some sessionId,
      happySessionMetadataFromLocalWebhook = Some sessionMetadata,
      pid = p,
      childProcess = None,
      directoryCreated = None,
      message = None\<rparr>"

text \<open>
  \<open>onHappySessionWebhook\<close>. \<open>if (!pid) return\<close> leaves on an absent \<open>hostPid\<close> and on
  \<open>hostPid = 0\<close> alike. The daemon-spawned entry is updated in place, so it keeps its position
  in the map.
\<close>

definition onHappySessionWebhook :: "string \<Rightarrow> Metadata \<Rightarrow> daemon \<Rightarrow> daemon" where
  "onHappySessionWebhook sessionId sessionMetadata s =
     (case hostPid sessionMetadata of
        None \<Rightarrow> s
      | Some p \<Rightarrow>
          if p = 0 then s
          else
            (case map_of (pidToTrackedSession s) p of
               Some existingSession \<Rightarrow>
                 if startedBy existingSession = Daemon then
                   (let updated = existingSession\<lparr>
                            happySessionId := Some sessionId,
                            happySessionMetadataFromLocalWebhook := Some sessionMetadata\<rparr>;
                        s1 = s\<lparr>pidToTrackedSession :=
                                 AList.update p updated (pidToTrackedSession s)\<rparr>
                    in (case map_of (pidToAwaiter s1) p of
                          Some c \<Rightarrow>
                            awaiter c updated
                              (s1\<lparr>pidToAwaiter := AList.delete p (pidToAwaiter s1)\<rparr>)
                        | None \<Rightarrow> s1))
                 else s
             | None \<Rightarrow>
                 s\<lparr>pidToTrackedSession :=
                     AList.update p (externalSession sessionId sessionMetadata p)
                       (pidToTrackedSession s)\<rparr>))"

section \<open>Printing numbers\<close>

text \<open>
  A template literal prints an integer in decimal, with a leading \<open>-\<close> when it is negative
  (JavaScript changes to exponent notation from \<open>1e21\<close> on, far above any pid).
\<close>

definition digit_char :: "nat \<Rightarrow> char" where
  "digit_char d = ''0123456789'' ! d"

fun string_of_nat :: "nat \<Rightarrow> string" where
  "string_of_nat n =
     (if n < 10 then [digit_char n]
      else string_of_nat (n div 10) @ [digit_char (n mod 10)])"

declare string_of_nat.simps [simp del]

definition string_of_int :: "int \<Rightarrow> string" where
  "string_of_int i = (if i < 0 then CHR ''-'' # string_of_nat (nat (- i)) else string_of_nat (nat i))"

section \<open>The session spawner\<close>

text \<open>A name between single quotes, as the messages show a directory.\<close>

definition quoted :: "string \<Rightarrow> string" where
  "quoted x = [CHR 0x27] @ x @ [CHR 0x27]"

text \<open>The message built in the \<open>catch (mkdirError)\<close> block.\<close>

definition mkdirErrorMessage :: "string \<Rightarrow> MkdirError \<Rightarrow> string" where
  "mkdirErrorMessage dir e =
     ''Unable to create directory at '' @ quoted dir @ ''. '' @
     (case e of
        EACCES \<Rightarrow> ''Permission denied. You don't have write access to create a folder at this location. Try using a different path or check your permissions.''
      | ENOTDIR \<Rightarrow> ''A file already exists at this path or in the parent path. Cannot create a directory here. Please choose a different location.''
      | ENOSPC \<Rightarrow> ''No space left on device. Your disk is full. Please free up some space and try again.''
      | EROFS \<Rightarrow> ''The file system is read-only. Cannot create directories here. Please choose a writable location.''
      | OtherError m \<Rightarrow> ''System error: '' @ m @ ''. Please verify the path is valid and you have the necessary permissions.'')"

text \<open>
  \<open>authEnv\<close>: empty without a token (\<open>if (options.token)\<close> holds for a token that is present
  and not the empty string); for the agent \<open>codex\<close> a fresh temporary directory as
  \<open>CODEX_HOME\<close>; for any other agent the token as \<open>CLAUDE_CODE_OAUTH_TOKEN\<close>.
  \<open>tmp.dirSync\<close> may throw (\<open>Inl\<close>).
\<close>

definition resolveAuthEnv :: "HostAnswers \<Rightarrow> SpawnSessionOptions \<Rightarrow> string + (string \<rightharpoonup> string)" where
  "resolveAuthEnv h options =
     (case token options of
        None \<Rightarrow> Inr Map.empty
      | Some t \<Rightarrow>
          if t = [] then Inr Map.empty
          else if agent options = Some ''codex'' then
            (case tmpDirSync h of
               Inl err \<Rightarrow> Inl err
             | Inr codexHomeDir \<Rightarrow> Inr [''CODEX_HOME'' \<mapsto> codexHomeDir])
          else Inr [''CLAUDE_CODE_OAUTH_TOKEN'' \<mapsto> t])"

text \<open>For \<open>codex\<close> the token is written to \<open>auth.json\<close> in that directory.\<close>

definition authFiles :: "HostAnswers \<Rightarrow> SpawnSessionOptions \<Rightarrow> (string \<times> string) list" where
  "authFiles h options =
     (case token options of
        None \<Rightarrow> []
      | Some t \<Rightarrow>
          if t = [] then []
          else if agent options = Some ''codex'' then
            (case tmpDirSync h of
               Inl err \<Rightarrow> []
             | Inr codexHomeDir \<Rightarrow> [(codexHomeDir @ ''/auth.json'', t)])
          else [])"

text \<open>
  The arguments for the CLI. \<open>--resume\<close> is added for a \<open>resumeClaudeSessionId\<close> that is present
  and not the empty string, \<open>--fork-session\<close> for \<open>forkSession = true\<close>.
\<close>

definition spawnArgs :: "SpawnSessionOptions \<Rightarrow> string list" where
  "spawnArgs options =
     [if agent options = Some ''claude'' then ''claude'' else ''codex'',
      ''--happy-starting-mode'', ''remote'',
      ''--started-by'', ''daemon''] @
     (case resumeClaudeSessionId options of
        Some r \<Rightarrow> if r \<noteq> [] then [''--resume'', r] else []
      | None \<Rightarrow> []) @
     (if forkSession options = Some True then [''--fork-session''] else [])"

text \<open>
  The environment of the child: \<open>{...process.env, ...userEnv, ...authEnv}\<close>. In an object
  spread a later source overrides an earlier one key by key, as \<open>++\<close> does on maps.
\<close>

definition childEnv ::
  "(string \<rightharpoonup> string) \<Rightarrow> SpawnSessionOptions \<Rightarrow> (string \<rightharpoonup> string) \<Rightarrow> (string \<rightharpoonup> string)" where
  "childEnv penv options authEnv =
     penv ++ (case environmentVariables options of Some userEnv \<Rightarrow> userEnv | None \<Rightarrow> Map.empty) ++ authEnv"

text \<open>The \<open>trackedSession\<close> a spawn call builds for the pid of its child.\<close>

definition trackedSession :: "string \<Rightarrow> bool \<Rightarrow> int \<Rightarrow> TrackedSession" where
  "trackedSession dir created p =
     \<lparr>startedBy = Daemon,
      happySessionId = None,
      happySessionMetadataFromLocalWebhook = None,
      pid = p,
      childProcess = Some (ChildProcess p),
      directoryCreated = Some created,
      message = (if created
                 then Some (''The path '' @ quoted dir @
                            '' did not exist. We created a new folder and spawned a new session there.'')
                 else None)\<rparr>"

text \<open>
  From \<open>pidToTrackedSession.set\<close> to the end of \<open>spawnSession\<close>: the session is registered
  under the pid, then the promise is made: its timeout is armed and its awaiter registered.
  The listeners for \<open>exit\<close> and \<open>error\<close> of the child are the event \<open>ChildExited\<close> below.
\<close>

definition trackAndAwait :: "string \<Rightarrow> bool \<Rightarrow> int \<Rightarrow> daemon \<Rightarrow> SpawnReturn \<times> daemon" where
  "trackAndAwait dir created p s =
     (let c = nextCall s
      in (Pending c,
          s\<lparr>pidToTrackedSession :=
               AList.update p (trackedSession dir created p) (pidToTrackedSession s),
            timers := AList.update c p (timers s),
            pidToAwaiter := AList.update p c (pidToAwaiter s),
            nextCall := Suc c\<rparr>))"

text \<open>The \<open>try\<close> block after the directory is settled: credentials, launch, pid check.\<close>

definition launchSession ::
  "HostAnswers \<Rightarrow> SpawnSessionOptions \<Rightarrow> bool \<Rightarrow> daemon \<Rightarrow> SpawnReturn \<times> daemon" where
  "launchSession h options created s =
     (case resolveAuthEnv h options of
        Inl err \<Rightarrow> (Returned (Error (''Failed to spawn session: '' @ err)), s)
      | Inr authEnv \<Rightarrow>
          (let s1 = s\<lparr>writtenFiles := writtenFiles s @ authFiles h options\<rparr>
           in (case spawnHappyCLI h of
                 Inl err \<Rightarrow> (Returned (Error (''Failed to spawn session: '' @ err)), s1)
               | Inr happyProcessPid \<Rightarrow>
                   (let s2 = s1\<lparr>launches := launches s1 @
                                 [\<lparr>args = spawnArgs options,
                                   cwd = directory options,
                                   detached = True,
                                   env = childEnv (processEnv s1) options authEnv\<rparr>]\<rparr>
                    in (case happyProcessPid of
                          None \<Rightarrow>
                            (Returned (Error ''Failed to spawn Happy process - no PID returned''), s2)
                        | Some p \<Rightarrow>
                            if p = 0
                            then (Returned (Error ''Failed to spawn Happy process - no PID returned''), s2)
                            else trackAndAwait (directory options) created p s2)))))"

text \<open>
  \<open>spawnSession\<close>. \<open>approvedNewDirectoryCreation = true\<close> in the destructuring is the value of
  an absent field. \<open>existingPaths\<close> are the paths \<open>fs.access\<close> succeeds on.
\<close>

definition spawnSession :: "HostAnswers \<Rightarrow> SpawnSessionOptions \<Rightarrow> daemon \<Rightarrow> SpawnReturn \<times> daemon" where
  "spawnSession h options s =
     (let approved = (case approvedNewDirectoryCreation options of None \<Rightarrow> True | Some b \<Rightarrow> b)
      in if directory options \<in> existingPaths s then launchSession h options False s
         else if \<not> approved
         then (Returned (RequestToApproveDirectoryCreation (directory options)), s)
         else
           (let s0 = s\<lparr>mkdirCalls := mkdirCalls s @ [(directory options, True)]\<rparr>
            in (case mkdirResult h of
                  Some e \<Rightarrow> (Returned (Error (mkdirErrorMessage (directory options) e)), s0)
                | None \<Rightarrow>
                    launchSession h options True
                      (s0\<lparr>existingPaths := insert (directory options) (existingPaths s0)\<rparr>))))"

text \<open>
  The callback of \<open>setTimeout(..., 15_000)\<close> of call \<open>c\<close>. It runs only while the timer is
  armed; a timer fires once.
\<close>

definition timeoutFires :: "nat \<Rightarrow> daemon \<Rightarrow> daemon" where
  "timeoutFires c s =
     (case map_of (timers s) c of
        None \<Rightarrow> s
      | Some p \<Rightarrow>
          resolve c (Error (''Session webhook timeout for PID '' @ string_of_int p))
            (s\<lparr>timers := AList.delete c (timers s),
               pidToAwaiter := AList.delete p (pidToAwaiter s)\<rparr>))"

definition onChildExited :: "int \<Rightarrow> daemon \<Rightarrow> daemon" where
  "onChildExited p s = s\<lparr>pidToTrackedSession := AList.delete p (pidToTrackedSession s)\<rparr>"

text \<open>
  The pruning loop of the heartbeat: an entry goes when \<open>process.kill(pid, 0)\<close> throws.
\<close>

definition pruneStale :: "(int \<Rightarrow> bool) \<Rightarrow> daemon \<Rightarrow> daemon" where
  "pruneStale dead s =
     s\<lparr>pidToTrackedSession := filter (\<lambda>(p, _). \<not> dead p) (pidToTrackedSession s)\<rparr>"

section \<open>Stopping a session\<close>

text \<open>
  \<open>parseInt\<close> without a radix: leading white space is skipped, a sign is read, a prefix
  \<open>0x\<close> or \<open>0X\<close> selects base 16, and the longest run of digits is the number; with no
  digit the result is \<open>NaN\<close>, here \<open>None\<close>. The characters are those of Latin-1, and the
  number is exact where JavaScript's is, below \<open>2^53\<close>.
\<close>

definition isWhiteSpace :: "char \<Rightarrow> bool" where
  "isWhiteSpace ch = (ch \<in> {CHR 0x09, CHR 0x0A, CHR 0x0B, CHR 0x0C, CHR 0x0D, CHR 0x20, CHR 0xA0})"

definition digitValue :: "char \<Rightarrow> nat option" where
  "digitValue ch =
     (let n = (of_char ch :: nat)
      in if 48 \<le> n \<and> n \<le> 57 then Some (n - 48)
         else if 97 \<le> n \<and> n \<le> 122 then Some (n - 87)
         else if 65 \<le> n \<and> n \<le> 90 then Some (n - 55)
         else None)"

fun parseDigits :: "nat \<Rightarrow> string \<Rightarrow> nat option \<Rightarrow> nat option" where
  "parseDigits radix [] acc = acc"
| "parseDigits radix (ch # rest) acc =
     (case digitValue ch of
        None \<Rightarrow> acc
      | Some d \<Rightarrow>
          if d < radix
          then parseDigits radix rest (Some ((case acc of None \<Rightarrow> 0 | Some a \<Rightarrow> a * radix) + d))
          else acc)"

definition parseInt :: "string \<Rightarrow> int option" where
  "parseInt str =
     (let s1 = dropWhile isWhiteSpace str;
          negative = (take 1 s1 = ''-'');
          s2 = (if take 1 s1 = ''-'' \<or> take 1 s1 = ''+'' then drop 1 s1 else s1);
          hex = (take 2 s2 = ''0x'' \<or> take 2 s2 = ''0X'')
      in map_option (\<lambda>n. if negative then - int n else int n)
           (if hex then parseDigits 16 (drop 2 s2) None else parseDigits 10 s2 None))"

text \<open>
  The test of the loop in \<open>stopSession\<close>:
  \<^verbatim>\<open>session.happySessionId === sessionId || (sessionId.startsWith('PID-') && pid === parseInt(sessionId.replace('PID-', '')))\<close>
  On a string that starts with \<open>PID-\<close>, \<open>replace('PID-', '')\<close> removes these four characters.
\<close>

definition matchesSession :: "string \<Rightarrow> int \<Rightarrow> TrackedSession \<Rightarrow> bool" where
  "matchesSession sessionId p session =
     (happySessionId session = Some sessionId \<or>
      (take 4 sessionId = ''PID-'' \<and> parseInt (drop 4 sessionId) = Some p))"

text \<open>
  The signal sent for a matching entry: through the child handle of a daemon-spawned session,
  to the pid otherwise. Both calls sit in a \<open>try\<close> whose \<open>catch\<close> only logs.
\<close>

definition killCall :: "int \<Rightarrow> TrackedSession \<Rightarrow> KillCall" where
  "killCall p session =
     (case childProcess session of
        Some (ChildProcess cp) \<Rightarrow> if startedBy session = Daemon then ChildKill cp else ProcessKill p
      | None \<Rightarrow> ProcessKill p)"

text \<open>
  The loop over \<open>pidToTrackedSession.entries()\<close>, from the entries still to visit: the first
  matching entry is signalled and deleted and the function returns \<open>true\<close>. \<open>killThrows\<close>
  tells for which signals the host throws.
\<close>

fun stopSessionFrom ::
  "(KillCall \<Rightarrow> bool) \<Rightarrow> string \<Rightarrow> (int \<times> TrackedSession) list \<Rightarrow> daemon \<Rightarrow> bool \<times> daemon" where
  "stopSessionFrom killThrows sessionId [] s = (False, s)"
| "stopSessionFrom killThrows sessionId ((p, session) # rest) s =
     (if matchesSession sessionId p session
      then (True,
            s\<lparr>signals := signals s @ [(killCall p session, killThrows (killCall p session))],
              pidToTrackedSession := AList.delete p (pidToTrackedSession s)\<rparr>)
      else stopSessionFrom killThrows sessionId rest s)"

definition stopSession :: "(KillCall \<Rightarrow> bool) \<Rightarrow> string \<Rightarrow> daemon \<Rightarrow> bool \<times> daemon" where
  "stopSession killThrows sessionId s =
     stopSessionFrom killThrows sessionId (pidToTrackedSession s) s"

section \<open>Events of the daemon\<close>

text \<open>
  The daemon runs on one event loop: each of these runs to its end before the next starts.
  The lists of \<open>StopSession\<close> and \<open>Heartbeat\<close> are the signals the host throws on and the pids
  the host reports dead.
\<close>

datatype Event =
  SessionWebhook string Metadata
| TimeoutFires nat
| ChildExited int
| StopSession "KillCall list" string
| SpawnSession HostAnswers SpawnSessionOptions
| Heartbeat "int list"

fun step :: "Event \<Rightarrow> daemon \<Rightarrow> daemon" where
  "step (SessionWebhook sid md) s = onHappySessionWebhook sid md s"
| "step (TimeoutFires c) s = timeoutFires c s"
| "step (ChildExited p) s = onChildExited p s"
| "step (StopSession thrown sid) s = snd (stopSession (\<lambda>k. k \<in> set thrown) sid s)"
| "step (SpawnSession h options) s = snd (spawnSession h options s)"
| "step (Heartbeat deadPids) s = pruneStale (\<lambda>p. p \<in> set deadPids) s"

fun run :: "Event list \<Rightarrow> daemon \<Rightarrow> daemon" where
  "run [] s = s"
| "run (e # es) s = run es (step e s)"

text \<open>A daemon that has just built its two maps.\<close>

definition freshDaemon :: "string set \<Rightarrow> (string \<rightharpoonup> string) \<Rightarrow> daemon" where
  "freshDaemon paths penv =
     \<lparr>pidToTrackedSession = [], pidToAwaiter = [], timers = [], resolved = [], nextCall = 0,
      existingPaths = paths, mkdirCalls = [], processEnv = penv, launches = [],
      writtenFiles = [], signals = []\<rparr>"

section \<open>Decryption (api/encryption.ts)\<close>

text \<open>A call that throws, or gives its value back.\<close>

datatype 'v Evaluated = Raises | Gives 'v

text \<open>
  What \<open>encryption.ts\<close> calls outside this repository, for the key of one client; bytes are
  numbers. \<open>Buffer.from(text, 'base64')\<close> never throws. \<open>tweetnacl.secretbox.open\<close>, given
  the box and the nonce, throws on a nonce that is not 24 bytes long and gives \<open>null\<close>
  (\<open>None\<close>) on a box it cannot authenticate. \<open>aesGcmOpen\<close> is the deciphering with
  \<open>createDecipheriv('aes-256-gcm', ...)\<close>, given nonce, auth tag and ciphertext; it throws
  (from \<open>final\<close>) when the tag does not fit. \<open>jsonParse\<close> is
  \<open>JSON.parse(new TextDecoder().decode(_))\<close>, which throws on text that is not JSON and may
  give \<open>null\<close>.
\<close>

record 'v Primitives =
  bufferFromBase64 :: "string \<Rightarrow> nat list"
  secretboxOpen :: "nat list \<Rightarrow> nat list \<Rightarrow> nat list option Evaluated"
  aesGcmOpen :: "nat list \<Rightarrow> nat list \<Rightarrow> nat list \<Rightarrow> nat list Evaluated"
  jsonParse :: "nat list \<Rightarrow> 'v option Evaluated"

datatype Variant = Legacy | DataKey

text \<open>\<open>decodeBase64\<close>, with its default variant \<open>'base64'\<close>.\<close>

definition decodeBase64 :: "'v Primitives \<Rightarrow> string \<Rightarrow> nat list" where
  "decodeBase64 prims base64 = bufferFromBase64 prims base64"

text \<open>
  \<open>decryptLegacy\<close>: the first 24 bytes are the nonce (fewer when the data is shorter), the
  rest is the box. There is no check of the length and no \<open>try\<close>: what
  \<open>secretbox.open\<close> or \<open>JSON.parse\<close> throws leaves the function.
\<close>

definition decryptLegacy :: "'v Primitives \<Rightarrow> nat list \<Rightarrow> 'v option Evaluated" where
  "decryptLegacy prims data =
     (let nonce = take 24 data;
          encrypted = drop 24 data
      in (case secretboxOpen prims encrypted nonce of
            Raises \<Rightarrow> Raises
          | Gives None \<Rightarrow> Gives None
          | Gives (Some decrypted) \<Rightarrow> jsonParse prims decrypted))"

text \<open>
  \<open>decryptWithDataKey\<close>: a bundle that is empty, that does not start with the version byte
  0, or that is shorter than version, nonce and auth tag together gives \<open>null\<close>; the
  deciphering and the parsing sit in a \<open>try\<close> whose \<open>catch\<close> returns \<open>null\<close>.
\<close>

definition decryptWithDataKey :: "'v Primitives \<Rightarrow> nat list \<Rightarrow> 'v option Evaluated" where
  "decryptWithDataKey prims bundle =
     (if length bundle < 1 then Gives None
      else if bundle ! 0 \<noteq> 0 then Gives None
      else if length bundle < 12 + 16 + 1 then Gives None
      else
        (let nonce = take 12 (drop 1 bundle);
             authTag = drop (length bundle - 16) bundle;
             ciphertext = take (length bundle - 16 - 13) (drop 13 bundle)
         in (case aesGcmOpen prims nonce authTag ciphertext of
               Raises \<Rightarrow> Gives None
             | Gives decrypted \<Rightarrow>
                 (case jsonParse prims decrypted of
                    Raises \<Rightarrow> Gives None
                  | Gives parsed \<Rightarrow> Gives parsed))))"

definition decrypt :: "'v Primitives \<Rightarrow> Variant \<Rightarrow> nat list \<Rightarrow> 'v option Evaluated" where
  "decrypt prims variant data =
     (case variant of
        Legacy \<Rightarrow> decryptLegacy prims data
      | DataKey \<Rightarrow> decryptWithDataKey prims data)"

section \<open>Optimistic updates of the session client (api/apiSession.ts)\<close>

text \<open>
  The answer to \<open>update-metadata\<close> and \<open>update-state\<close>: \<open>result\<close> is \<open>success\<close> or
  \<open>version-mismatch\<close>, both with the authority's version and its encrypted value, or
  \<open>error\<close>.
\<close>

datatype 'b Answer =
  ResultSuccess int 'b
| ResultVersionMismatch int 'b
| ResultError

text \<open>
  The fields of \<open>ApiSessionClient\<close> the two updates use, and the requests the client has
  emitted: the \<open>expectedVersion\<close> and the value that was encrypted into the request.
  \<open>None\<close> is \<open>null\<close>. The key of the client is the one the primitives work with.
\<close>

record ('m, 'a) ApiSessionClient =
  metadata :: "'m option"
  metadataVersion :: int
  agentState :: "'a option"
  agentStateVersion :: int
  encryptionVariant :: Variant
  emittedUpdateMetadata :: "(int \<times> 'm) list"
  emittedUpdateState :: "(int \<times> 'a) list"

text \<open>
  One run of a callback given to \<open>backoff\<close>: it returns, it throws, or it still awaits the
  acknowledgement; each with the client it leaves.
\<close>

datatype 's Attempt = Returns 's | Throws 's | Awaits 's

text \<open>
  Modelled from the spec: \<open>backoff\<close> of \<open>utils/time\<close> is not among the sources. The spec has
  the whole operation retried, with exponential backoff, for as long as it fails with a
  version mismatch: the callback runs again each time it throws, and \<open>backoff\<close> returns when
  the callback returns. The delays are not modelled. The answers of the authority are
  consumed one per run; with no answer left the last run still awaits its acknowledgement.
\<close>

fun backoff :: "('r option \<Rightarrow> 's \<Rightarrow> 's Attempt) \<Rightarrow> 'r list \<Rightarrow> 's \<Rightarrow> 's Attempt" where
  "backoff callback [] s = callback None s"
| "backoff callback (r # rs) s =
     (case callback (Some r) s of
        Throws s' \<Rightarrow> backoff callback rs s'
      | Returns s' \<Rightarrow> Returns s'
      | Awaits s' \<Rightarrow> Awaits s')"

text \<open>
  The callback of \<open>updateMetadata\<close>. The handler is applied to \<open>this.metadata!\<close>, whatever it
  holds. On \<open>success\<close> the value is decrypted before anything is assigned: when \<open>decrypt\<close>
  throws, the callback throws with nothing stored. On a mismatch with a version above the
  stored one, \<open>this.metadataVersion\<close> is assigned first and \<open>decrypt\<close> is called after it:
  when \<open>decrypt\<close> throws there, the new version is stored with the old value, and the
  callback throws as it does at the end of this branch anyway.
\<close>

definition updateMetadataAttempt ::
  "'m Primitives \<Rightarrow> ('m option \<Rightarrow> 'm) \<Rightarrow> string Answer option \<Rightarrow>
   ('m, 'a) ApiSessionClient \<Rightarrow> ('m, 'a) ApiSessionClient Attempt" where
  "updateMetadataAttempt prims handler answer cl =
     (let updated = handler (metadata cl);
          cl1 = cl\<lparr>emittedUpdateMetadata :=
                     emittedUpdateMetadata cl @ [(metadataVersion cl, updated)]\<rparr>
      in (case answer of
            None \<Rightarrow> Awaits cl1
          | Some (ResultSuccess version blob) \<Rightarrow>
              (case decrypt prims (encryptionVariant cl1) (decodeBase64 prims blob) of
                 Raises \<Rightarrow> Throws cl1
               | Gives decrypted \<Rightarrow>
                   Returns (cl1\<lparr>metadata := decrypted, metadataVersion := version\<rparr>))
          | Some (ResultVersionMismatch version blob) \<Rightarrow>
              if version > metadataVersion cl1
              then (let cl2 = cl1\<lparr>metadataVersion := version\<rparr>
                    in (case decrypt prims (encryptionVariant cl2) (decodeBase64 prims blob) of
                          Raises \<Rightarrow> Throws cl2
                        | Gives decrypted \<Rightarrow> Throws (cl2\<lparr>metadata := decrypted\<rparr>)))
              else Throws cl1
          | Some ResultError \<Rightarrow> Returns cl1))"

text \<open>
  \<open>updateMetadata\<close>, one call holding \<open>metadataLock\<close>, against the answers the authority
  gives to its successive requests.
\<close>

definition updateMetadata ::
  "'m Primitives \<Rightarrow> ('m option \<Rightarrow> 'm) \<Rightarrow> string Answer list \<Rightarrow>
   ('m, 'a) ApiSessionClient \<Rightarrow> ('m, 'a) ApiSessionClient Attempt" where
  "updateMetadata prims handler answers cl =
     backoff (updateMetadataAttempt prims handler) answers cl"

text \<open>
  \<open>answer.agentState ? decrypt(...) : null\<close>: an answer without a state, or with the empty
  string, gives \<open>null\<close> and calls nothing.
\<close>

definition decryptState ::
  "'a Primitives \<Rightarrow> Variant \<Rightarrow> string option \<Rightarrow> 'a option Evaluated" where
  "decryptState prims variant blob =
     (case blob of
        None \<Rightarrow> Gives None
      | Some b \<Rightarrow> if b = [] then Gives None else decrypt prims variant (decodeBase64 prims b))"

text \<open>
  The callback of \<open>updateAgentState\<close>. The handler is applied to \<open>this.agentState || {}\<close>
  (\<open>emptyState\<close> is \<open>{}\<close>). The assignments are in the same order as in \<open>updateMetadata\<close>:
  on \<open>success\<close> the state, then the version; on a mismatch the version, then the state.
\<close>

definition updateAgentStateAttempt ::
  "'a Primitives \<Rightarrow> 'a \<Rightarrow> ('a \<Rightarrow> 'a) \<Rightarrow> string option Answer option \<Rightarrow>
   ('m, 'a) ApiSessionClient \<Rightarrow> ('m, 'a) ApiSessionClient Attempt" where
  "updateAgentStateAttempt prims emptyState handler answer cl =
     (let updated = handler (case agentState cl of None \<Rightarrow> emptyState | Some st \<Rightarrow> st);
          cl1 = cl\<lparr>emittedUpdateState :=
                     emittedUpdateState cl @ [(agentStateVersion cl, updated)]\<rparr>
      in (case answer of
            None \<Rightarrow> Awaits cl1
          | Some (ResultSuccess version blob) \<Rightarrow>
              (case decryptState prims (encryptionVariant cl1) blob of
                 Raises \<Rightarrow> Throws cl1
               | Gives decrypted \<Rightarrow>
                   Returns (cl1\<lparr>agentState := decrypted, agentStateVersion := version\<rparr>))
          | Some (ResultVersionMismatch version blob) \<Rightarrow>
              if version > agentStateVersion cl1
              then (let cl2 = cl1\<lparr>agentStateVersion := version\<rparr>
                    in (case decryptState prims (encryptionVariant cl2) blob of
                          Raises \<Rightarrow> Throws cl2
                        | Gives decrypted \<Rightarrow> Throws (cl2\<lparr>agentState := decrypted\<rparr>)))
              else Throws cl1
          | Some ResultError \<Rightarrow> Returns cl1))"

definition updateAgentState ::
  "'a Primitives \<Rightarrow> 'a \<Rightarrow> ('a \<Rightarrow> 'a) \<Rightarrow> string option Answer list \<Rightarrow>
   ('m, 'a) ApiSessionClient \<Rightarrow> ('m, 'a) ApiSessionClient Attempt" where
  "updateAgentState prims emptyState handler answers cl =
     backoff (updateAgentStateAttempt prims emptyState handler) answers cl"

text \<open>
  A versioned field as the client holds it: the version and the value. A mismatch whose
  version is above the stored one brings its version and, unless \<open>decrypt\<close> throws, its
  value; any other mismatch leaves the field as it is.
\<close>

definition metadataField :: "('m, 'a) ApiSessionClient \<Rightarrow> int \<times> 'm option" where
  "metadataField cl = (metadataVersion cl, metadata cl)"

definition agentStateField :: "('m, 'a) ApiSessionClient \<Rightarrow> int \<times> 'a option" where
  "agentStateField cl = (agentStateVersion cl, agentState cl)"

definition adopt :: "int \<times> 'v \<Rightarrow> int \<times> 'v Evaluated \<Rightarrow> int \<times> 'v" where
  "adopt held answered =
     (if fst answered > fst held
      then (fst answered, case snd answered of Raises \<Rightarrow> snd held | Gives decrypted \<Rightarrow> decrypted)
      else held)"

text \<open>
  What the client holds at the start of each run of the callback, from the first run to the
  one after the last mismatch.
\<close>

fun heldAt :: "int \<times> 'v \<Rightarrow> (int \<times> 'v Evaluated) list \<Rightarrow> (int \<times> 'v) list" where
  "heldAt held [] = [held]"
| "heldAt held (answered # later) = held # heldAt (adopt held answered) later"

text \<open>The answers of an authority that reports a mismatch each time, with what it holds.\<close>

definition mismatches :: "(int \<times> 'b) list \<Rightarrow> 'b Answer list" where
  "mismatches held = map (\<lambda>(version, blob). ResultVersionMismatch version blob) held"

section \<open>Starting the daemon\<close>

text \<open>\<open>DaemonLocallyPersistedState\<close>, the content of the state file.\<close>

record DaemonLocallyPersistedState =
  pid :: int
  httpPort :: nat
  startTime :: string
  startedWithCliVersion :: string
  lastHeartbeat :: "string option"
  daemonLogPath :: string

text \<open>
  The files two daemons share, and what a starting daemon prints: the state file (absent, or
  holding a state), the lock marker (absent, or holding the pid of its owner), the lines
  written with \<open>console.log\<close>.
\<close>

record Host =
  stateFile :: "DaemonLocallyPersistedState option"
  lockFile :: "int option"
  consoleLog :: "string list"

text \<open>
  What the starting process knows of itself and what the steps after the lock give it:
  \<open>process.pid\<close>, \<open>packageJson.version\<close>, whether \<open>authAndSetupMachineIfNeeded\<close> or
  \<open>startDaemonControlServer\<close> throws, the port of the control server, the start time and
  the path of the log.
\<close>

record Starting =
  processPid :: int
  packageVersion :: string
  setupThrows :: bool
  controlPort :: nat
  startedAt :: string
  logFilePath :: string

text \<open>
  Modelled from the spec: \<open>readDaemonState\<close> and \<open>writeDaemonState\<close> of the persistence
  module are not among the sources. \<open>read\<close> gives the state, or null when the record is
  absent or unparseable; \<open>write\<close> replaces the record.
\<close>

definition readDaemonState :: "Host \<Rightarrow> DaemonLocallyPersistedState option" where
  "readDaemonState h = stateFile h"

definition writeDaemonState :: "DaemonLocallyPersistedState \<Rightarrow> Host \<Rightarrow> Host" where
  "writeDaemonState st h = h\<lparr>stateFile := Some st\<rparr>"

text \<open>
  Modelled from the spec: \<open>isDaemonRunningCurrentlyInstalledHappyVersion\<close> of the control
  client is not among the sources. A same-version daemon is running when the persisted
  state is present (its absence means that no daemon is running) and its
  \<open>startedWithCliVersion\<close> is the version of the starting process.
\<close>

definition isDaemonRunningCurrentlyInstalledHappyVersion :: "string \<Rightarrow> Host \<Rightarrow> bool" where
  "isDaemonRunningCurrentlyInstalledHappyVersion version h =
     (case readDaemonState h of
        None \<Rightarrow> False
      | Some st \<Rightarrow> startedWithCliVersion st = version)"

text \<open>
  Modelled from the spec: \<open>stopDaemon\<close> of the control client is not among the sources. The
  new daemon stops the running one, whose shutdown clears the persisted state and releases
  the lock; with no daemon running there is nothing to stop.
\<close>

definition stopDaemon :: "Host \<Rightarrow> Host" where
  "stopDaemon h =
     (case readDaemonState h of
        None \<Rightarrow> h
      | Some st \<Rightarrow> h\<lparr>stateFile := None, lockFile := None\<rparr>)"

text \<open>
  Modelled from the spec: \<open>acquireDaemonLock\<close> of the persistence module is not among the
  sources. It tries to create the marker, which fails while the marker is present, up to
  \<open>maxAttempts\<close> times, then gives up with null. The marker records the pid of its holder.
\<close>

fun acquireDaemonLock :: "nat \<Rightarrow> int \<Rightarrow> Host \<Rightarrow> bool \<times> Host" where
  "acquireDaemonLock 0 holder h = (False, h)"
| "acquireDaemonLock (Suc attempts) holder h =
     (case lockFile h of
        None \<Rightarrow> (True, h\<lparr>lockFile := Some holder\<rparr>)
      | Some _ \<Rightarrow> acquireDaemonLock attempts holder h)"

text \<open>How the start of the daemon ends: the process exits with a code, or the daemon runs.\<close>

datatype Startup = Exit int | DaemonRunning

text \<open>
  \<open>startDaemon\<close> from the version check to the first \<open>writeDaemonState\<close>: the check, the
  stop of a daemon of another version, the lock, the setup inside \<open>try\<close> (whose \<open>catch\<close>
  exits with code 1), the write of the state file.
\<close>

definition startDaemon :: "Starting \<Rightarrow> Host \<Rightarrow> Startup \<times> Host" where
  "startDaemon me h =
     (if \<not> isDaemonRunningCurrentlyInstalledHappyVersion (packageVersion me) h
      then
        (let h1 = stopDaemon h
         in (case acquireDaemonLock 5 (processPid me) h1 of
               (False, h2) \<Rightarrow> (Exit 0, h2)
             | (True, h2) \<Rightarrow>
                 if setupThrows me then (Exit 1, h2)
                 else (DaemonRunning,
                       writeDaemonState
                         \<lparr>pid = processPid me,
                          httpPort = controlPort me,
                          startTime = startedAt me,
                          startedWithCliVersion = packageVersion me,
                          lastHeartbeat = None,
                          daemonLogPath = logFilePath me\<rparr> h2)))
      else (Exit 0, h\<lparr>consoleLog := consoleLog h @ [''Daemon already running with matching version'']\<rparr>))"

section \<open>Invariants of the event loop\<close>

text \<open>Every call number in use is below the next one.\<close>

definition callsNumbered :: "daemon \<Rightarrow> bool" where
  "callsNumbered s =
     ((\<forall>c p. map_of (timers s) c = Some p \<longrightarrow> c < nextCall s) \<and>
      (\<forall>c r. map_of (resolved s) c = Some r \<longrightarrow> c < nextCall s) \<and>
      (\<forall>p c. map_of (pidToAwaiter s) p = Some c \<longrightarrow> c < nextCall s))"

text \<open>
  Call \<open>c\<close>, made for pid \<open>p\<close>, is still open: its timer is armed, its promise is not
  settled, and its awaiter is registered under no other pid.
\<close>

definition awaiting :: "nat \<Rightarrow> int \<Rightarrow> daemon \<Rightarrow> bool" where
  "awaiting c p s =
     (map_of (timers s) c = Some p \<and> map_of (resolved s) c = None \<and>
      (\<forall>q. map_of (pidToAwaiter s) q = Some c \<longrightarrow> q = p) \<and> c < nextCall s)"

text \<open>The registry has no entry for the pid, or a daemon-spawned one without a session id.\<close>

definition unreported :: "int \<Rightarrow> daemon \<Rightarrow> bool" where
  "unreported p s =
     (case map_of (pidToTrackedSession s) p of
        None \<Rightarrow> True
      | Some e \<Rightarrow> startedBy e = Daemon \<and> happySessionId e = None)"

text \<open>The event is a webhook whose metadata carries the pid.\<close>

fun reportsPid :: "int \<Rightarrow> Event \<Rightarrow> bool" where
  "reportsPid p (SessionWebhook sid md) = (hostPid md = Some p)"
| "reportsPid p _ = False"

text \<open>
  The events that take away what a spawn call waits with for the report of pid \<open>p\<close>: a
  webhook that reports \<open>p\<close>; the timeout of a call that was made for \<open>p\<close>, which deletes
  the awaiter of \<open>p\<close>; the exit of child \<open>p\<close>, a stop by the id \<open>PID-p\<close> and a heartbeat
  that finds \<open>p\<close> dead, which delete the entry of \<open>p\<close>; and a spawn whose child has the pid
  \<open>p\<close> again, which replaces both. A list of events is undisturbed for \<open>p\<close> when none of
  them, in the state it runs in, is one of these.
\<close>

fun disturbs :: "int \<Rightarrow> Event \<Rightarrow> daemon \<Rightarrow> bool" where
  "disturbs p (SessionWebhook sid md) s = (hostPid md = Some p)"
| "disturbs p (TimeoutFires c) s = (map_of (timers s) c = Some p)"
| "disturbs p (ChildExited q) s = (q = p)"
| "disturbs p (StopSession thrown sid) s =
     (take 4 sid = ''PID-'' \<and> parseInt (drop 4 sid) = Some p)"
| "disturbs p (SpawnSession h options) s = (spawnHappyCLI h = Inr (Some p))"
| "disturbs p (Heartbeat deadPids) s = (p \<in> set deadPids)"

fun undisturbed :: "int \<Rightarrow> Event list \<Rightarrow> daemon \<Rightarrow> bool" where
  "undisturbed p [] s = True"
| "undisturbed p (e # es) s = (\<not> disturbs p e s \<and> undisturbed p es (step e s))"

text \<open>
  Call \<open>c\<close> is open for pid \<open>p\<close>, its awaiter is the one registered under \<open>p\<close>, and the
  registry holds \<open>entry\<close> under \<open>p\<close>; the keys of the registry are distinct, as those of a
  \<open>Map\<close> are.
\<close>

definition registered :: "nat \<Rightarrow> int \<Rightarrow> TrackedSession \<Rightarrow> daemon \<Rightarrow> bool" where
  "registered c p entry s =
     (awaiting c p s \<and> map_of (pidToAwaiter s) p = Some c \<and>
      map_of (pidToTrackedSession s) p = Some entry \<and>
      distinct (map fst (pidToTrackedSession s)))"

text \<open>The two ways a call of the spawner ends, seen on the maps, the timers and the promises.\<close>

definition returnsAtOnce :: "SpawnReturn \<times> daemon \<Rightarrow> daemon \<Rightarrow> bool" where
  "returnsAtOnce out s =
     ((\<exists>r. fst out = Returned r) \<and>
      pidToTrackedSession (snd out) = pidToTrackedSession s \<and>
      pidToAwaiter (snd out) = pidToAwaiter s \<and>
      timers (snd out) = timers s \<and>
      resolved (snd out) = resolved s \<and>
      nextCall (snd out) = nextCall s)"

definition tracksAndAwaits ::
  "SpawnSessionOptions \<Rightarrow> bool \<Rightarrow> int \<Rightarrow> SpawnReturn \<times> daemon \<Rightarrow> daemon \<Rightarrow> bool" where
  "tracksAndAwaits options created p out s =
     (fst out = Pending (nextCall s) \<and>
      pidToTrackedSession (snd out) =
        AList.update p (trackedSession (directory options) created p) (pidToTrackedSession s) \<and>
      pidToAwaiter (snd out) = AList.update p (nextCall s) (pidToAwaiter s) \<and>
      timers (snd out) = AList.update (nextCall s) p (timers s) \<and>
      resolved (snd out) = resolved s \<and>
      nextCall (snd out) = Suc (nextCall s))"


section \<open>Example inputs\<close>

text \<open>
  A daemon with no session on a host where \<open>/tmp\<close> exists, the same daemon after a spawn
  into \<open>/tmp\<close> whose child has the given pid, the metadata a session with that pid
  reports, and a spawn into a directory that does not exist, with a token and with
  environment variables from the app.
\<close>

definition baseEnv :: "string \<rightharpoonup> string" where
  "baseEnv = [''PATH'' \<mapsto> ''/usr/bin'', ''HOME'' \<mapsto> ''/home/user'']"

definition idleDaemon :: daemon where
  "idleDaemon = freshDaemon {''/tmp''} baseEnv"

definition spawnInto :: "string \<Rightarrow> SpawnSessionOptions" where
  "spawnInto dir =
     \<lparr>directory = dir, approvedNewDirectoryCreation = None, token = None,
      agent = Some ''claude'', environmentVariables = None, resumeClaudeSessionId = None,
      forkSession = None\<rparr>"

definition childWithPid :: "int \<Rightarrow> HostAnswers" where
  "childWithPid p = \<lparr>mkdirResult = None, tmpDirSync = Inr ''/tmp/tmp-1'', spawnHappyCLI = Inr (Some p)\<rparr>"

definition reportFrom :: "int \<Rightarrow> Metadata" where
  "reportFrom p = \<lparr>path = ''/tmp'', host = ''localhost'', homeDir = ''/home/user'', hostPid = Some p\<rparr>"

definition spawnedDaemon :: "int \<Rightarrow> daemon" where
  "spawnedDaemon p = snd (spawnSession (childWithPid p) (spawnInto ''/tmp'') idleDaemon)"

definition newProject :: "bool option \<Rightarrow> SpawnSessionOptions" where
  "newProject approved =
     \<lparr>directory = ''/home/user/new-project'', approvedNewDirectoryCreation = approved,
      token = Some ''secret-token'', agent = Some ''claude'',
      environmentVariables =
        Some [''PATH'' \<mapsto> ''/opt/bin'', ''CLAUDE_CODE_OAUTH_TOKEN'' \<mapsto> ''from-the-app''],
      resumeClaudeSessionId = None, forkSession = None\<rparr>"








text \<open>A host on which a daemon of version 1.0.0 runs, and a second daemon that starts.\<close>

definition runningHost :: Host where
  "runningHost =
     \<lparr>stateFile = Some \<lparr>pid = 500, httpPort = 43210, startTime = ''10:00'',
                         startedWithCliVersion = ''1.0.0'', lastHeartbeat = None,
                         daemonLogPath = ''/home/user/.happy/logs/daemon.log''\<rparr>,
      lockFile = Some 500,
      consoleLog = []\<rparr>"

definition secondDaemon :: "string \<Rightarrow> Starting" where
  "secondDaemon version =
     \<lparr>processPid = 600, packageVersion = version, setupThrows = False, controlPort = 43999,
      startedAt = ''10:05'', logFilePath = ''/home/user/.happy/logs/daemon-2.log''\<rparr>"

definition mkdirDenied :: HostAnswers where
  "mkdirDenied = \<lparr>mkdirResult = Some EACCES, tmpDirSync = Inr ''/tmp/tmp-1'', spawnHappyCLI = Inr (Some 4242)\<rparr>"

definition childWithoutPid :: HostAnswers where
  "childWithoutPid = \<lparr>mkdirResult = None, tmpDirSync = Inr ''/tmp/tmp-1'', spawnHappyCLI = Inr None\<rparr>"

section \<open>Association lists\<close>

lemma update_append:
  "map_of al k = None \<Longrightarrow> AList.update k v al = al @ [(k, v)]"
  by (induction al) (auto split: if_splits)

lemma delete_absent:
  "map_of al k = None \<Longrightarrow> AList.delete k al = al"
  by (simp add: map_of_eq_None_iff)

lemma map_of_delete_same:
  "map_of (AList.delete k al) k = None"
  by (simp add: delete_conv')

section \<open>The webhook, case by case\<close>

lemma webhook_no_pid:
  "hostPid md = None \<or> hostPid md = Some 0 \<Longrightarrow> onHappySessionWebhook sid md s = s"
  by (auto simp: onHappySessionWebhook_def)

lemma webhook_daemon_entry:
  fixes sid :: string and md :: Metadata and s :: daemon and e :: TrackedSession
  assumes "hostPid md = Some p" "p \<noteq> 0"
    and "map_of (pidToTrackedSession s) p = Some e" "startedBy e = Daemon"
  defines "e' \<equiv> e\<lparr>happySessionId := Some sid, happySessionMetadataFromLocalWebhook := Some md\<rparr>"
  defines "s' \<equiv> onHappySessionWebhook sid md s"
  shows "pidToTrackedSession s' = AList.update p e' (pidToTrackedSession s)"
    and "pidToAwaiter s' = AList.delete p (pidToAwaiter s)"
    and "map_of (pidToAwaiter s) p = None \<Longrightarrow> resolved s' = resolved s \<and> timers s' = timers s"
    and "map_of (pidToAwaiter s) p = Some c \<Longrightarrow>
           timers s' = AList.delete c (timers s) \<and>
           map_of (resolved s') c =
             (case map_of (resolved s) c of None \<Rightarrow> Some (Success (Some sid)) | Some r \<Rightarrow> Some r)"
  using assms
  by (auto simp: onHappySessionWebhook_def awaiter_def resolve_def clearTimeout_def Let_def
       delete_absent update_conv' split: option.splits)

lemma webhook_unknown_pid:
  assumes "hostPid md = Some p" "p \<noteq> 0" "map_of (pidToTrackedSession s) p = None"
  shows "onHappySessionWebhook sid md s =
     s\<lparr>pidToTrackedSession := pidToTrackedSession s @ [(p, externalSession sid md p)]\<rparr>"
  using assms
  by (simp add: onHappySessionWebhook_def update_append)

lemma webhook_external_entry:
  assumes "hostPid md = Some p" "map_of (pidToTrackedSession s) p = Some e" "startedBy e \<noteq> Daemon"
  shows "onHappySessionWebhook sid md s = s"
  using assms by (simp add: onHappySessionWebhook_def)

section \<open>The event loop keeps its invariants\<close>

lemma map_of_filter_key:
  "map_of (filter (\<lambda>(k, _). P k) al) k = (if P k then map_of al k else None)"
  by (induction al) auto

lemma resolve_fields [simp]:
  "timers (resolve c r s) = timers s" "pidToAwaiter (resolve c r s) = pidToAwaiter s"
  "nextCall (resolve c r s) = nextCall s" "pidToTrackedSession (resolve c r s) = pidToTrackedSession s"
  by (auto simp: resolve_def split: option.splits)

lemma resolve_resolved:
  "map_of (resolved (resolve c r s)) c' =
     (if c' = c \<and> map_of (resolved s) c = None then Some r else map_of (resolved s) c')"
  by (auto simp: resolve_def update_conv' split: option.splits)

lemma webhook_nextCall [simp]: "nextCall (onHappySessionWebhook sid md s) = nextCall s"
  by (auto simp: onHappySessionWebhook_def awaiter_def clearTimeout_def Let_def split: option.splits)

lemma webhook_timers:
  "map_of (timers (onHappySessionWebhook sid md s)) c = Some p \<Longrightarrow> map_of (timers s) c = Some p"
  by (auto simp: onHappySessionWebhook_def awaiter_def clearTimeout_def Let_def delete_conv'
      split: option.splits if_splits)

lemma webhook_awaiters:
  "map_of (pidToAwaiter (onHappySessionWebhook sid md s)) p = Some c \<Longrightarrow> map_of (pidToAwaiter s) p = Some c"
  by (auto simp: onHappySessionWebhook_def awaiter_def clearTimeout_def Let_def delete_conv'
      split: option.splits if_splits)

lemma webhook_resolved:
  "map_of (resolved (onHappySessionWebhook sid md s)) c = Some r \<Longrightarrow>
   map_of (resolved s) c = Some r \<or> (\<exists>p. hostPid md = Some p \<and> map_of (pidToAwaiter s) p = Some c)"
  by (auto simp: onHappySessionWebhook_def awaiter_def clearTimeout_def Let_def delete_conv'
      resolve_resolved split: option.splits if_splits)

lemma launch_cases:
  "returnsAtOnce (launchSession h options created s) s \<or>
   (\<exists>p. p \<noteq> 0 \<and> spawnHappyCLI h = Inr (Some p) \<and>
        tracksAndAwaits options created p (launchSession h options created s) s)"
proof (cases "resolveAuthEnv h options")
  case (Inl err)
  then show ?thesis by (simp add: launchSession_def returnsAtOnce_def)
next
  case (Inr authEnv)
  show ?thesis
  proof (cases "spawnHappyCLI h")
    case (Inl err)
    then show ?thesis using Inr by (simp add: launchSession_def returnsAtOnce_def)
  next
    case launched: (Inr happyProcessPid)
    show ?thesis
    proof (cases "happyProcessPid = None \<or> happyProcessPid = Some 0")
      case True
      then show ?thesis using Inr launched
        by (auto simp: launchSession_def returnsAtOnce_def)
    next
      case False
      then obtain p where "happyProcessPid = Some p" "p \<noteq> 0" by auto
      then show ?thesis using Inr launched
        by (simp add: launchSession_def tracksAndAwaits_def trackAndAwait_def trackedSession_def Let_def)
    qed
  qed
qed

lemma spawn_cases:
  "returnsAtOnce (spawnSession h options s) s \<or>
   (\<exists>p created. p \<noteq> 0 \<and> spawnHappyCLI h = Inr (Some p) \<and>
        tracksAndAwaits options created p (spawnSession h options s) s)"
proof (cases "directory options \<in> existingPaths s")
  case True
  then have "spawnSession h options s = launchSession h options False s"
    by (simp add: spawnSession_def)
  then show ?thesis using launch_cases[of h options False s] by auto
next
  case absent: False
  show ?thesis
  proof (cases "approvedNewDirectoryCreation options = Some False")
    case True
    then show ?thesis using absent by (simp add: spawnSession_def returnsAtOnce_def)
  next
    case False
    then have approved: "(case approvedNewDirectoryCreation options of None \<Rightarrow> True | Some b \<Rightarrow> b)"
      by (cases "approvedNewDirectoryCreation options") auto
    let ?s1 = "s\<lparr>mkdirCalls := mkdirCalls s @ [(directory options, True)],
                 existingPaths := insert (directory options) (existingPaths s)\<rparr>"
    show ?thesis
    proof (cases "mkdirResult h")
      case None
      then have "spawnSession h options s = launchSession h options True ?s1"
        using absent approved by (simp add: spawnSession_def)
      then show ?thesis using launch_cases[of h options True ?s1]
        by (auto simp: returnsAtOnce_def tracksAndAwaits_def)
    next
      case (Some e)
      then show ?thesis using absent approved by (simp add: spawnSession_def returnsAtOnce_def)
    qed
  qed
qed

lemma stopSessionFrom_fields:
  "timers (snd (stopSessionFrom k sid es s)) = timers s \<and>
   pidToAwaiter (snd (stopSessionFrom k sid es s)) = pidToAwaiter s \<and>
   resolved (snd (stopSessionFrom k sid es s)) = resolved s \<and>
   nextCall (snd (stopSessionFrom k sid es s)) = nextCall s"
  by (induction es) auto

lemma stopSessionFrom_registry:
  "pidToTrackedSession (snd (stopSessionFrom k sid es s)) = pidToTrackedSession s \<or>
   (\<exists>p. pidToTrackedSession (snd (stopSessionFrom k sid es s)) = AList.delete p (pidToTrackedSession s))"
proof (induction es)
  case Nil
  show ?case by simp
next
  case (Cons x es)
  obtain p e where x: "x = (p, e)" by (cases x)
  show ?case
  proof (cases "matchesSession sid p e")
    case True
    then have "pidToTrackedSession (snd (stopSessionFrom k sid (x # es) s)) =
                 AList.delete p (pidToTrackedSession s)"
      by (simp add: x)
    then show ?thesis by blast
  next
    case False
    then show ?thesis using Cons by (simp add: x)
  qed
qed

lemma callsNumbered_step: "callsNumbered s \<Longrightarrow> callsNumbered (step e s)"
proof (cases e)
  case (SessionWebhook sid md)
  assume "callsNumbered s"
  then show ?thesis
    unfolding SessionWebhook callsNumbered_def step.simps
    by (auto dest!: webhook_timers webhook_awaiters webhook_resolved)
next
  case (TimeoutFires c)
  assume "callsNumbered s"
  then show ?thesis
    unfolding TimeoutFires callsNumbered_def step.simps
    by (auto simp: timeoutFires_def resolve_resolved delete_conv' split: option.splits if_splits)
next
  case (ChildExited p)
  assume "callsNumbered s"
  then show ?thesis
    by (simp add: ChildExited callsNumbered_def onChildExited_def)
next
  case (StopSession thrown sid)
  assume "callsNumbered s"
  then show ?thesis
    by (simp add: StopSession callsNumbered_def stopSession_def stopSessionFrom_fields)
next
  case (SpawnSession h options)
  assume "callsNumbered s"
  then show ?thesis
    using spawn_cases[of h options s]
    unfolding SpawnSession callsNumbered_def step.simps returnsAtOnce_def tracksAndAwaits_def
    by (auto simp: update_conv' less_Suc_eq split: if_splits)
next
  case (Heartbeat dead)
  assume "callsNumbered s"
  then show ?thesis
    by (simp add: Heartbeat callsNumbered_def pruneStale_def)
qed

lemma callsNumbered_run: "callsNumbered s \<Longrightarrow> callsNumbered (run es s)"
  by (induction es arbitrary: s) (auto simp: callsNumbered_step)

lemma callsNumbered_fresh: "callsNumbered (freshDaemon paths penv)"
  by (simp add: callsNumbered_def freshDaemon_def)

lemma webhook_registry_other:
  "hostPid md \<noteq> Some p \<Longrightarrow>
   map_of (pidToTrackedSession (onHappySessionWebhook sid md s)) p = map_of (pidToTrackedSession s) p"
  by (auto simp: onHappySessionWebhook_def awaiter_def clearTimeout_def Let_def update_conv'
      split: option.splits)

lemma webhook_awaiting:
  assumes "awaiting c p s" "hostPid md \<noteq> Some p"
  shows "awaiting c p (onHappySessionWebhook sid md s)"
proof (cases "hostPid md")
  case None
  then show ?thesis using assms by (simp add: webhook_no_pid)
next
  case (Some q)
  then have qp: "q \<noteq> p" using assms by simp
  show ?thesis
  proof (cases "map_of (pidToAwaiter s) q")
    case None
    then show ?thesis using assms Some
      by (auto simp: awaiting_def onHappySessionWebhook_def Let_def delete_absent split: option.splits)
  next
    case (Some c')
    then have "c' \<noteq> c" using assms qp by (auto simp: awaiting_def)
    then show ?thesis using assms Some \<open>hostPid md = Some q\<close>
      by (auto simp: awaiting_def onHappySessionWebhook_def Let_def awaiter_def clearTimeout_def
          resolve_resolved delete_conv' split: option.splits if_splits)
  qed
qed

lemma timeout_other_awaiting:
  assumes "awaiting c p s" "c' \<noteq> c"
  shows "awaiting c p (timeoutFires c' s)"
  using assms
  by (auto simp: awaiting_def timeoutFires_def resolve_resolved delete_conv' split: option.splits if_splits)

lemma spawn_awaiting:
  assumes "awaiting c p s"
  shows "awaiting c p (snd (spawnSession h options s))"
  using assms spawn_cases[of h options s]
  by (auto simp: awaiting_def returnsAtOnce_def tracksAndAwaits_def update_conv' split: if_splits)

lemma awaiting_step:
  assumes "awaiting c p s" "\<not> reportsPid p e" "e \<noteq> TimeoutFires c"
  shows "awaiting c p (step e s)"
proof (cases e)
  case (SessionWebhook sid md)
  then show ?thesis using assms by (simp add: webhook_awaiting)
next
  case (TimeoutFires c')
  then show ?thesis using assms by (simp add: timeout_other_awaiting)
next
  case (ChildExited q)
  then show ?thesis using assms by (simp add: awaiting_def onChildExited_def)
next
  case (StopSession thrown sid)
  then show ?thesis using assms
    by (simp add: awaiting_def stopSession_def stopSessionFrom_fields)
next
  case (SpawnSession h options)
  then show ?thesis using assms by (simp add: spawn_awaiting)
next
  case (Heartbeat dead)
  then show ?thesis using assms by (simp add: awaiting_def pruneStale_def)
qed

lemma awaiting_run:
  assumes "awaiting c p s" "\<forall>e \<in> set es. \<not> reportsPid p e \<and> e \<noteq> TimeoutFires c"
  shows "awaiting c p (run es s)"
  using assms by (induction es arbitrary: s) (auto simp: awaiting_step)

lemma unreported_step:
  assumes "unreported p s" "\<not> reportsPid p e"
  shows "unreported p (step e s)"
proof (cases e)
  case (SessionWebhook sid md)
  then show ?thesis using assms by (simp add: unreported_def webhook_registry_other)
next
  case (TimeoutFires c')
  then show ?thesis using assms
    by (auto simp: unreported_def timeoutFires_def split: option.splits)
next
  case (ChildExited q)
  then show ?thesis using assms
    by (auto simp: unreported_def onChildExited_def delete_conv' split: option.splits)
next
  case (StopSession thrown sid)
  then show ?thesis using assms stopSessionFrom_registry[of "\<lambda>k. k \<in> set thrown" sid "pidToTrackedSession s" s]
    by (auto simp: unreported_def stopSession_def delete_conv' split: option.splits if_splits)
next
  case (SpawnSession h options)
  then show ?thesis using assms spawn_cases[of h options s]
    by (auto simp: unreported_def returnsAtOnce_def tracksAndAwaits_def update_conv' trackedSession_def
        split: option.splits if_splits)
next
  case (Heartbeat dead)
  then show ?thesis using assms
    by (auto simp: unreported_def pruneStale_def map_of_filter_key split: option.splits if_splits)
qed

lemma unreported_run:
  assumes "unreported p s" "\<forall>e \<in> set es. \<not> reportsPid p e"
  shows "unreported p (run es s)"
  using assms by (induction es arbitrary: s) (auto simp: unreported_step)

lemma timeout_when_awaiting:
  assumes "awaiting c p s"
  shows "map_of (resolved (timeoutFires c s)) c =
           Some (Error (''Session webhook timeout for PID '' @ string_of_int p))"
    and "map_of (pidToAwaiter (timeoutFires c s)) p = None"
    and "map_of (timers (timeoutFires c s)) c = None"
    and "pidToTrackedSession (timeoutFires c s) = pidToTrackedSession s"
  using assms
  by (auto simp: awaiting_def timeoutFires_def resolve_resolved delete_conv')

lemma spawn_pending:
  assumes "callsNumbered s" "spawnSession h options s = (Pending c, s1)"
  shows "\<exists>p created. p \<noteq> 0 \<and> spawnHappyCLI h = Inr (Some p) \<and> c = nextCall s \<and>
           awaiting c p s1 \<and> map_of (pidToAwaiter s1) p = Some c \<and>
           map_of (pidToTrackedSession s1) p = Some (trackedSession (directory options) created p)"
proof -
  from spawn_cases[of h options s] assms(2)
  obtain p created where p: "p \<noteq> 0" "spawnHappyCLI h = Inr (Some p)"
      "tracksAndAwaits options created p (Pending c, s1) s"
    by (auto simp: returnsAtOnce_def)
  have "awaiting c p s1"
    using p(3) assms(1)
    by (fastforce simp: tracksAndAwaits_def awaiting_def callsNumbered_def update_conv' split: if_splits)
  then show ?thesis using p by (auto simp: tracksAndAwaits_def update_conv')
qed

lemma run_append: "run (es @ es') s = run es' (run es s)"
  by (induction es arbitrary: s) auto

lemma callsNumbered_reachable: "callsNumbered (run es (freshDaemon paths penv))"
  by (simp add: callsNumbered_run callsNumbered_fresh)

lemma spawn_never_success: "fst (spawnSession h options s) \<noteq> Returned (Success sid)"
  by (auto simp: spawnSession_def launchSession_def trackAndAwait_def Let_def
      split: option.splits sum.splits)

lemma string_of_nat_digit: "n < 10 \<Longrightarrow> string_of_nat n = [digit_char n]"
  by (simp add: string_of_nat.simps)

lemma string_of_nat_more:
  "\<not> n < 10 \<Longrightarrow> string_of_nat n = string_of_nat (n div 10) @ [digit_char (n mod 10)]"
  by (subst string_of_nat.simps) simp


lemma launch_pending_iff:
  "fst (launchSession h options created s) = Pending c \<longleftrightarrow>
     ((\<exists>a. resolveAuthEnv h options = Inr a) \<and> (\<exists>p. p \<noteq> 0 \<and> spawnHappyCLI h = Inr (Some p)) \<and>
      c = nextCall s)"
  by (cases "resolveAuthEnv h options"; cases "spawnHappyCLI h")
     (auto simp: launchSession_def trackAndAwait_def Let_def split: option.splits)

lemma spawn_pending_iff:
  "fst (spawnSession h options s) = Pending c \<longleftrightarrow>
     ((directory options \<in> existingPaths s \<or>
       (approvedNewDirectoryCreation options \<noteq> Some False \<and> mkdirResult h = None)) \<and>
      (\<exists>a. resolveAuthEnv h options = Inr a) \<and> (\<exists>p. p \<noteq> 0 \<and> spawnHappyCLI h = Inr (Some p)) \<and>
      c = nextCall s)"
proof (cases "directory options \<in> existingPaths s")
  case True
  then have "spawnSession h options s = launchSession h options False s"
    by (simp add: spawnSession_def)
  then show ?thesis using True by (simp add: launch_pending_iff)
next
  case absent: False
  show ?thesis
  proof (cases "approvedNewDirectoryCreation options = Some False")
    case True
    then show ?thesis using absent by (simp add: spawnSession_def)
  next
    case False
    then have approved: "(case approvedNewDirectoryCreation options of None \<Rightarrow> True | Some b \<Rightarrow> b)"
      by (cases "approvedNewDirectoryCreation options") auto
    show ?thesis
    proof (cases "mkdirResult h")
      case None
      then have "spawnSession h options s = launchSession h options True
                   (s\<lparr>mkdirCalls := mkdirCalls s @ [(directory options, True)],
                      existingPaths := insert (directory options) (existingPaths s)\<rparr>)"
        using absent approved by (simp add: spawnSession_def)
      then show ?thesis using absent False None by (simp add: launch_pending_iff)
    next
      case (Some e)
      then show ?thesis using absent approved by (simp add: spawnSession_def)
    qed
  qed
qed

lemma webhook_existingPaths [simp]:
  "existingPaths (onHappySessionWebhook sid md s) = existingPaths s"
  by (auto simp: onHappySessionWebhook_def awaiter_def clearTimeout_def resolve_def Let_def
      split: option.splits)

section \<open>From the registration of a spawn call to the report\<close>

lemma stopSessionFrom_removed:
  "pidToTrackedSession (snd (stopSessionFrom k sid es s)) = pidToTrackedSession s \<or>
   (\<exists>q e. (q, e) \<in> set es \<and> matchesSession sid q e \<and>
      pidToTrackedSession (snd (stopSessionFrom k sid es s)) = AList.delete q (pidToTrackedSession s))"
proof (induction es)
  case Nil
  show ?case by simp
next
  case (Cons x es)
  obtain q e where x: "x = (q, e)" by (cases x)
  show ?case
  proof (cases "matchesSession sid q e")
    case True
    then have "pidToTrackedSession (snd (stopSessionFrom k sid (x # es) s)) =
                 AList.delete q (pidToTrackedSession s)"
      by (simp add: x)
    then show ?thesis using True x by auto
  next
    case False
    then show ?thesis using Cons by (auto simp: x)
  qed
qed

lemma webhook_awaiter_other:
  "hostPid md \<noteq> Some p \<Longrightarrow>
   map_of (pidToAwaiter (onHappySessionWebhook sid md s)) p = map_of (pidToAwaiter s) p"
  by (auto simp: onHappySessionWebhook_def awaiter_def clearTimeout_def Let_def delete_conv'
      split: option.splits)

lemma distinct_registry_step:
  assumes "distinct (map fst (pidToTrackedSession s))"
  shows "distinct (map fst (pidToTrackedSession (step e s)))"
proof (cases e)
  case (SessionWebhook sid md)
  then show ?thesis using assms
    by (auto simp: onHappySessionWebhook_def awaiter_def clearTimeout_def Let_def distinct_update
        split: option.splits)
next
  case (TimeoutFires c')
  then show ?thesis using assms by (auto simp: timeoutFires_def split: option.splits)
next
  case (ChildExited q)
  then show ?thesis using assms by (simp add: onChildExited_def distinct_delete)
next
  case (StopSession thrown sid)
  then show ?thesis
    using assms stopSessionFrom_registry[of "\<lambda>k. k \<in> set thrown" sid "pidToTrackedSession s" s]
    by (auto simp: stopSession_def distinct_delete)
next
  case (SpawnSession h options)
  then show ?thesis using assms spawn_cases[of h options s]
    by (auto simp: returnsAtOnce_def tracksAndAwaits_def distinct_update)
next
  case (Heartbeat dead)
  then show ?thesis using assms by (simp add: pruneStale_def distinct_map_filter)
qed

lemma distinct_registry_reachable:
  "distinct (map fst (pidToTrackedSession (run es (freshDaemon paths penv))))"
proof -
  have "distinct (map fst (pidToTrackedSession s)) \<Longrightarrow>
        distinct (map fst (pidToTrackedSession (run es s)))" for s
    by (induction es arbitrary: s) (auto simp: distinct_registry_step)
  then show ?thesis by (simp add: freshDaemon_def)
qed

lemma registered_step:
  assumes r: "registered c p entry s" and none: "happySessionId entry = None"
    and quiet: "\<not> disturbs p e s"
  shows "registered c p entry (step e s)"
proof -
  from r have aw: "awaiting c p s" and awp: "map_of (pidToAwaiter s) p = Some c"
    and reg: "map_of (pidToTrackedSession s) p = Some entry"
    and dist: "distinct (map fst (pidToTrackedSession s))"
    by (simp_all add: registered_def)
  have tc: "map_of (timers s) c = Some p" using aw by (simp add: awaiting_def)
  have rp: "\<not> reportsPid p e" using quiet by (cases e) auto
  have nt: "e \<noteq> TimeoutFires c" using quiet tc by auto
  have aw': "awaiting c p (step e s)" by (rule awaiting_step[OF aw rp nt])
  have dist': "distinct (map fst (pidToTrackedSession (step e s)))"
    by (rule distinct_registry_step[OF dist])
  have "map_of (pidToAwaiter (step e s)) p = Some c \<and>
        map_of (pidToTrackedSession (step e s)) p = Some entry"
  proof (cases e)
    case (SessionWebhook sid md)
    then have "hostPid md \<noteq> Some p" using quiet by simp
    then show ?thesis using awp reg SessionWebhook
      by (simp add: webhook_awaiter_other webhook_registry_other)
  next
    case (TimeoutFires c')
    then have "map_of (timers s) c' \<noteq> Some p" using quiet by simp
    then show ?thesis using awp reg TimeoutFires
      by (auto simp: timeoutFires_def delete_conv' split: option.splits)
  next
    case (ChildExited q)
    then have "q \<noteq> p" using quiet by simp
    then show ?thesis using awp reg ChildExited by (simp add: onChildExited_def delete_conv')
  next
    case (StopSession thrown sid)
    have nopid: "\<not> (take 4 sid = ''PID-'' \<and> parseInt (drop 4 sid) = Some p)"
      using quiet StopSession by simp
    from stopSessionFrom_removed[of "\<lambda>k. k \<in> set thrown" sid "pidToTrackedSession s" s]
    have "map_of (pidToTrackedSession (step e s)) p = Some entry"
    proof
      assume "pidToTrackedSession (snd (stopSessionFrom (\<lambda>k. k \<in> set thrown) sid (pidToTrackedSession s) s)) =
              pidToTrackedSession s"
      then show ?thesis using reg StopSession by (simp add: stopSession_def)
    next
      assume "\<exists>q e'. (q, e') \<in> set (pidToTrackedSession s) \<and> matchesSession sid q e' \<and>
        pidToTrackedSession (snd (stopSessionFrom (\<lambda>k. k \<in> set thrown) sid (pidToTrackedSession s) s)) =
        AList.delete q (pidToTrackedSession s)"
      then obtain q e' where q: "(q, e') \<in> set (pidToTrackedSession s)" "matchesSession sid q e'"
        "pidToTrackedSession (snd (stopSessionFrom (\<lambda>k. k \<in> set thrown) sid (pidToTrackedSession s) s)) =
           AList.delete q (pidToTrackedSession s)"
        by blast
      have "q \<noteq> p"
      proof
        assume "q = p"
        then have "map_of (pidToTrackedSession s) p = Some e'"
          using q(1) dist by simp
        then have "e' = entry" using reg by simp
        then show False using q(2) none nopid \<open>q = p\<close> by (simp add: matchesSession_def)
      qed
      then show ?thesis using reg q(3) StopSession by (simp add: stopSession_def delete_conv')
    qed
    then show ?thesis using awp StopSession by (simp add: stopSession_def stopSessionFrom_fields)
  next
    case (SpawnSession h options)
    then have np: "spawnHappyCLI h \<noteq> Inr (Some p)" using quiet by simp
    show ?thesis using spawn_cases[of h options s] np awp reg SpawnSession
      by (auto simp: returnsAtOnce_def tracksAndAwaits_def update_conv')
  next
    case (Heartbeat dead)
    then have "p \<notin> set dead" using quiet by simp
    then show ?thesis using awp reg Heartbeat by (simp add: pruneStale_def map_of_filter_key)
  qed
  then show ?thesis using aw' dist' by (simp add: registered_def)
qed

lemma registered_run:
  assumes "registered c p entry s" "happySessionId entry = None" "undisturbed p es s"
  shows "registered c p entry (run es s)"
  using assms
proof (induction es arbitrary: s)
  case Nil
  then show ?case by simp
next
  case (Cons e es)
  from Cons.prems have "registered c p entry (step e s)" by (simp add: registered_step)
  then show ?case using Cons by simp
qed

lemma webhook_settled:
  "map_of (resolved s) c = Some r \<Longrightarrow> map_of (resolved (onHappySessionWebhook sid md s)) c = Some r"
  by (auto simp: onHappySessionWebhook_def awaiter_def clearTimeout_def Let_def resolve_resolved
      split: option.splits)

lemma settled_step:
  assumes "map_of (resolved s) c = Some r"
  shows "map_of (resolved (step e s)) c = Some r"
proof (cases e)
  case (SessionWebhook sid md)
  then show ?thesis using assms by (simp add: webhook_settled)
next
  case (TimeoutFires c')
  then show ?thesis using assms
    by (auto simp: timeoutFires_def resolve_resolved split: option.splits)
next
  case (ChildExited q)
  then show ?thesis using assms by (simp add: onChildExited_def)
next
  case (StopSession thrown sid)
  then show ?thesis using assms by (simp add: stopSession_def stopSessionFrom_fields)
next
  case (SpawnSession h options)
  then show ?thesis using assms spawn_cases[of h options s]
    by (auto simp: returnsAtOnce_def tracksAndAwaits_def)
next
  case (Heartbeat dead)
  then show ?thesis using assms by (simp add: pruneStale_def)
qed

lemma settled_run:
  "map_of (resolved s) c = Some r \<Longrightarrow> map_of (resolved (run es s)) c = Some r"
  by (induction es arbitrary: s) (auto simp: settled_step)

section \<open>Evaluating the examples\<close>


lemmas example_defs = idleDaemon_def freshDaemon_def spawnInto_def childWithPid_def reportFrom_def
  spawnedDaemon_def

lemmas spawn_defs = spawnSession_def launchSession_def trackAndAwait_def resolveAuthEnv_def
  authFiles_def spawnArgs_def childEnv_def

lemmas print_defs = string_of_int_def string_of_nat_digit string_of_nat_more digit_char_def


lemma spawned_daemon:
  "spawnSession (childWithPid 4242) (spawnInto ''/tmp'') idleDaemon = (Pending 0, spawnedDaemon 4242)"
  by (simp add: example_defs spawn_defs)

lemma spawned_fields:
  "pidToTrackedSession (spawnedDaemon 4242) = [(4242, trackedSession ''/tmp'' False 4242)]"
  "pidToAwaiter (spawnedDaemon 4242) = [(4242, 0)]"
  "timers (spawnedDaemon 4242) = [(0, 4242)]"
  "resolved (spawnedDaemon 4242) = []"
  by (simp_all add: example_defs spawn_defs)

section \<open>Claims about the webhook and the spawner\<close>

text \<open>
  C5. A self-report webhook carrying \<open>(remoteSessionId, metadata)\<close>:
  \<^item> when the metadata has no \<open>hostPid\<close> (or the falsy pid 0), the call changes nothing;
  \<^item> when the registry has an entry for that pid with \<open>startedBy = daemon\<close>, the entry is
    updated in place with the session id and the metadata (the keys of the registry and
    their order stay), the awaiter of that pid is removed and, where there was one, its
    timer is cleared and its spawn call is resolved with success and the reported id;
  \<^item> when the registry has no entry for that pid, one entry is added under that pid, after
    the entries there are, and nothing else changes: the new entry is externally started
    (\<open>startedBy\<close> is \<open>happy directly - likely by user from terminal\<close>), it carries the
    reported session id, the reported metadata and the pid, and it has no child handle.
\<close>

theorem self_report_webhook:
  "(hostPid md = None \<or> hostPid md = Some 0 \<longrightarrow> onHappySessionWebhook sid md s = s) \<and>
   (\<forall>p e. hostPid md = Some p \<and> p \<noteq> 0 \<and> map_of (pidToTrackedSession s) p = Some e \<and>
          startedBy e = Daemon \<longrightarrow>
      pidToTrackedSession (onHappySessionWebhook sid md s) =
        AList.update p
          (e\<lparr>happySessionId := Some sid, happySessionMetadataFromLocalWebhook := Some md\<rparr>)
          (pidToTrackedSession s) \<and>
      map fst (pidToTrackedSession (onHappySessionWebhook sid md s)) = map fst (pidToTrackedSession s) \<and>
      map_of (pidToAwaiter (onHappySessionWebhook sid md s)) p = None \<and>
      (\<forall>q. q \<noteq> p \<longrightarrow> map_of (pidToAwaiter (onHappySessionWebhook sid md s)) q = map_of (pidToAwaiter s) q) \<and>
      (\<forall>c. map_of (pidToAwaiter s) p = Some c \<longrightarrow>
           map_of (timers (onHappySessionWebhook sid md s)) c = None \<and>
           map_of (resolved (onHappySessionWebhook sid md s)) c =
             (case map_of (resolved s) c of None \<Rightarrow> Some (Success (Some sid)) | Some r \<Rightarrow> Some r))) \<and>
   (\<forall>p. hostPid md = Some p \<and> p \<noteq> 0 \<and> map_of (pidToTrackedSession s) p = None \<longrightarrow>
      onHappySessionWebhook sid md s =
        s\<lparr>pidToTrackedSession := pidToTrackedSession s @
            [(p, \<lparr>startedBy = HappyDirectly, happySessionId = Some sid,
                 happySessionMetadataFromLocalWebhook = Some md, pid = p,
                 childProcess = None, directoryCreated = None, message = None\<rparr>)]\<rparr>)"
proof (intro conjI allI impI)
  assume "hostPid md = None \<or> hostPid md = Some 0"
  then show "onHappySessionWebhook sid md s = s" by (rule webhook_no_pid)
next
  fix p e
  assume h: "hostPid md = Some p \<and> p \<noteq> 0 \<and> map_of (pidToTrackedSession s) p = Some e \<and>
          startedBy e = Daemon"
  then have e: "map_of (pidToTrackedSession s) p = Some e" by simp
  from h show reg: "pidToTrackedSession (onHappySessionWebhook sid md s) =
        AList.update p
          (e\<lparr>happySessionId := Some sid, happySessionMetadataFromLocalWebhook := Some md\<rparr>)
          (pidToTrackedSession s)"
    by (simp add: webhook_daemon_entry(1))
  have "p \<in> fst ` set (pidToTrackedSession s)"
    using e by (metis map_of_eq_None_iff option.distinct(1))
  then show "map fst (pidToTrackedSession (onHappySessionWebhook sid md s)) = map fst (pidToTrackedSession s)"
    by (simp add: reg update_keys)
  from h show "map_of (pidToAwaiter (onHappySessionWebhook sid md s)) p = None"
    by (simp add: webhook_daemon_entry(2) map_of_delete_same)
  {
    fix q assume "q \<noteq> p"
    with h show "map_of (pidToAwaiter (onHappySessionWebhook sid md s)) q = map_of (pidToAwaiter s) q"
      by (simp add: webhook_daemon_entry(2))
  }
  {
    fix c assume c: "map_of (pidToAwaiter s) p = Some c"
    from h c show "map_of (timers (onHappySessionWebhook sid md s)) c = None"
      using webhook_daemon_entry(4)[of md p s e c sid] by (simp add: map_of_delete_same)
    from h c show "map_of (resolved (onHappySessionWebhook sid md s)) c =
             (case map_of (resolved s) c of None \<Rightarrow> Some (Success (Some sid)) | Some r \<Rightarrow> Some r)"
      using webhook_daemon_entry(4)[of md p s e c sid] by simp
  }
next
  fix p
  assume "hostPid md = Some p \<and> p \<noteq> 0 \<and> map_of (pidToTrackedSession s) p = None"
  then show "onHappySessionWebhook sid md s =
        s\<lparr>pidToTrackedSession := pidToTrackedSession s @
            [(p, \<lparr>startedBy = HappyDirectly, happySessionId = Some sid,
                 happySessionMetadataFromLocalWebhook = Some md, pid = p,
                 childProcess = None, directoryCreated = None, message = None\<rparr>)]\<rparr>"
    by (simp add: webhook_unknown_pid externalSession_def)
qed

theorem self_report_webhook_witness:
  "onHappySessionWebhook ''session-1'' ((reportFrom 4242)\<lparr>hostPid := None\<rparr>) (spawnedDaemon 4242) =
     spawnedDaemon 4242 \<and>
   hostPid (reportFrom 4242) = Some 4242 \<and>
   map_of (pidToTrackedSession (spawnedDaemon 4242)) 4242 = Some (trackedSession ''/tmp'' False 4242) \<and>
   startedBy (trackedSession ''/tmp'' False 4242) = Daemon \<and>
   map_of (pidToAwaiter (spawnedDaemon 4242)) 4242 = Some 0 \<and>
   pidToTrackedSession (onHappySessionWebhook ''session-1'' (reportFrom 4242) (spawnedDaemon 4242)) =
     [(4242, (trackedSession ''/tmp'' False 4242)\<lparr>happySessionId := Some ''session-1'',
        happySessionMetadataFromLocalWebhook := Some (reportFrom 4242)\<rparr>)] \<and>
   map_of (pidToAwaiter (onHappySessionWebhook ''session-1'' (reportFrom 4242) (spawnedDaemon 4242))) 4242 = None \<and>
   map_of (resolved (onHappySessionWebhook ''session-1'' (reportFrom 4242) (spawnedDaemon 4242))) 0 =
     Some (Success (Some ''session-1'')) \<and>
   map_of (pidToTrackedSession idleDaemon) 99999 = None \<and>
   onHappySessionWebhook ''session-2'' (reportFrom 99999) idleDaemon =
     idleDaemon\<lparr>pidToTrackedSession :=
       [(99999, \<lparr>startedBy = HappyDirectly, happySessionId = Some ''session-2'',
                 happySessionMetadataFromLocalWebhook =
                   Some \<lparr>path = ''/tmp'', host = ''localhost'', homeDir = ''/home/user'',
                         hostPid = Some 99999\<rparr>,
                 pid = 99999, childProcess = None, directoryCreated = None, message = None\<rparr>)]\<rparr>"
  using self_report_webhook[of "(reportFrom 4242)\<lparr>hostPid := None\<rparr>" "''session-1''" "spawnedDaemon 4242"]
    self_report_webhook[of "reportFrom 4242" "''session-1''" "spawnedDaemon 4242"]
    self_report_webhook[of "reportFrom 99999" "''session-2''" "idleDaemon"]
  by (simp add: spawned_fields trackedSession_def reportFrom_def idleDaemon_def freshDaemon_def)


text \<open>
  C10. A self-report webhook for a pid whose registry entry has \<open>startedBy\<close> other than
  \<open>daemon\<close> (an externally-started session) changes nothing: the entry keeps its session id
  and metadata, no entry is added, no awaiter is removed or called, no promise is settled.
\<close>

theorem webhook_for_external_entry:
  assumes "hostPid md = Some p"
    and "map_of (pidToTrackedSession s) p = Some e"
    and "startedBy e = HappyDirectly"
  shows "onHappySessionWebhook sid md s = s"
  using assms by (simp add: webhook_external_entry)

theorem webhook_for_external_entry_witness:
  "hostPid (reportFrom 99999) = Some 99999 \<and>
   map_of (pidToTrackedSession (onHappySessionWebhook ''session-2'' (reportFrom 99999) idleDaemon)) 99999 =
     Some (externalSession ''session-2'' (reportFrom 99999) 99999) \<and>
   startedBy (externalSession ''session-2'' (reportFrom 99999) 99999) = HappyDirectly \<and>
   onHappySessionWebhook ''session-3'' (reportFrom 99999)
     (onHappySessionWebhook ''session-2'' (reportFrom 99999) idleDaemon) =
   onHappySessionWebhook ''session-2'' (reportFrom 99999) idleDaemon"
proof -
  let ?s = "onHappySessionWebhook ''session-2'' (reportFrom 99999) idleDaemon"
  have a: "hostPid (reportFrom 99999) = Some 99999" by (simp add: reportFrom_def)
  have b: "map_of (pidToTrackedSession ?s) 99999 =
     Some (externalSession ''session-2'' (reportFrom 99999) 99999)"
    by (simp add: onHappySessionWebhook_def example_defs)
  have c: "startedBy (externalSession ''session-2'' (reportFrom 99999) 99999) = HappyDirectly"
    by (simp add: externalSession_def)
  show ?thesis
    using a b c webhook_for_external_entry[OF a b c, of "''session-3''"] by simp
qed


text \<open>
  C4, as amended. From any state the daemon reaches:
  \<^item> a launch that yields no pid (none, or the falsy pid 0) makes the call return at once,
    with the registry, the awaiters and the timers as they were, and with the error
    \<open>Failed to spawn Happy process - no PID returned\<close> when the child was launched; no
    call returns success at once;
  \<^item> when the call is pending for pid \<open>p\<close> and the events before its timeout hold no webhook
    for \<open>p\<close>, the timeout settles the call with the error
    \<open>Session webhook timeout for PID p\<close>, removes the awaiter of \<open>p\<close> and leaves the
    registry as it is: the entry of \<open>p\<close>, unless an event removed it meanwhile, is
    daemon-spawned without a session id, and with no event in between it is the entry the
    spawn call registered.
\<close>

theorem spawn_without_report:
  assumes "s = run before (freshDaemon paths penv)"
  shows "(spawnHappyCLI h = Inr None \<or> spawnHappyCLI h = Inr (Some 0) \<longrightarrow>
            returnsAtOnce (spawnSession h options s) s \<and>
            (launches (snd (spawnSession h options s)) \<noteq> launches s \<longrightarrow>
               fst (spawnSession h options s) =
                 Returned (Error ''Failed to spawn Happy process - no PID returned''))) \<and>
         (\<forall>sid. fst (spawnSession h options s) \<noteq> Returned (Success sid)) \<and>
         (\<forall>c s1 p es.
            spawnSession h options s = (Pending c, s1) \<and> spawnHappyCLI h = Inr (Some p) \<and>
            (\<forall>e \<in> set es. \<not> reportsPid p e \<and> e \<noteq> TimeoutFires c) \<longrightarrow>
            map_of (resolved (run (es @ [TimeoutFires c]) s1)) c =
              Some (Error (''Session webhook timeout for PID '' @ string_of_int p)) \<and>
            map_of (pidToAwaiter (run (es @ [TimeoutFires c]) s1)) p = None \<and>
            pidToTrackedSession (run (es @ [TimeoutFires c]) s1) = pidToTrackedSession (run es s1) \<and>
            unreported p (run (es @ [TimeoutFires c]) s1) \<and>
            (es = [] \<longrightarrow>
               (\<exists>created. map_of (pidToTrackedSession (run (es @ [TimeoutFires c]) s1)) p =
                            Some (trackedSession (directory options) created p))))"
proof (intro conjI allI impI)
  assume nopid: "spawnHappyCLI h = Inr None \<or> spawnHappyCLI h = Inr (Some 0)"
  then show "returnsAtOnce (spawnSession h options s) s"
    using spawn_cases[of h options s] by auto
  assume "launches (snd (spawnSession h options s)) \<noteq> launches s"
  then show "fst (spawnSession h options s) =
                 Returned (Error ''Failed to spawn Happy process - no PID returned'')"
    using nopid
    by (auto simp: spawnSession_def launchSession_def Let_def split: option.splits sum.splits if_splits)
next
  fix sid
  show "fst (spawnSession h options s) \<noteq> Returned (Success sid)"
    by (rule spawn_never_success)
next
  fix c s1 p es
  assume h: "spawnSession h options s = (Pending c, s1) \<and> spawnHappyCLI h = Inr (Some p) \<and>
            (\<forall>e \<in> set es. \<not> reportsPid p e \<and> e \<noteq> TimeoutFires c)"
  have num: "callsNumbered s" using assms by (simp add: callsNumbered_reachable)
  from spawn_pending[OF num, of h options c s1] h
  obtain created where aw: "awaiting c p s1"
    and reg: "map_of (pidToTrackedSession s1) p = Some (trackedSession (directory options) created p)"
    by auto
  have un: "unreported p s1" using reg by (simp add: unreported_def trackedSession_def)
  have aw2: "awaiting c p (run es s1)" using aw h by (simp add: awaiting_run)
  have un2: "unreported p (run es s1)" using un h by (simp add: unreported_run)
  have r: "run (es @ [TimeoutFires c]) s1 = timeoutFires c (run es s1)"
    by (simp add: run_append)
  show "map_of (resolved (run (es @ [TimeoutFires c]) s1)) c =
              Some (Error (''Session webhook timeout for PID '' @ string_of_int p))"
    unfolding r by (rule timeout_when_awaiting(1)[OF aw2])
  show "map_of (pidToAwaiter (run (es @ [TimeoutFires c]) s1)) p = None"
    unfolding r by (rule timeout_when_awaiting(2)[OF aw2])
  show same: "pidToTrackedSession (run (es @ [TimeoutFires c]) s1) = pidToTrackedSession (run es s1)"
    unfolding r by (rule timeout_when_awaiting(4)[OF aw2])
  show "unreported p (run (es @ [TimeoutFires c]) s1)"
    using un2 same by (simp add: unreported_def)
  assume "es = []"
  then show "\<exists>created. map_of (pidToTrackedSession (run (es @ [TimeoutFires c]) s1)) p =
                            Some (trackedSession (directory options) created p)"
    using same reg by auto
qed

theorem spawn_without_report_witness:
  "idleDaemon = run [] (freshDaemon {''/tmp''} baseEnv) \<and>
   spawnHappyCLI childWithoutPid = Inr None \<and>
   fst (spawnSession childWithoutPid (spawnInto ''/tmp'') idleDaemon) =
     Returned (Error ''Failed to spawn Happy process - no PID returned'') \<and>
   pidToTrackedSession (snd (spawnSession childWithoutPid (spawnInto ''/tmp'') idleDaemon)) = [] \<and>
   spawnSession (childWithPid 4242) (spawnInto ''/tmp'') idleDaemon = (Pending 0, spawnedDaemon 4242) \<and>
   spawnHappyCLI (childWithPid 4242) = Inr (Some 4242) \<and>
   map_of (resolved (run ([Heartbeat []] @ [TimeoutFires 0]) (spawnedDaemon 4242))) 0 =
     Some (Error ''Session webhook timeout for PID 4242'') \<and>
   map_of (pidToAwaiter (run ([Heartbeat []] @ [TimeoutFires 0]) (spawnedDaemon 4242))) 4242 = None \<and>
   map_of (pidToTrackedSession (run ([] @ [TimeoutFires 0]) (spawnedDaemon 4242))) 4242 =
     Some (trackedSession ''/tmp'' False 4242)"
proof -
  have start: "idleDaemon = run [] (freshDaemon {''/tmp''} baseEnv)"
    by (simp add: idleDaemon_def)
  note t = spawn_without_report[OF start]
  have a: "spawnHappyCLI childWithoutPid = Inr None" by (simp add: childWithoutPid_def)
  have l: "launches (snd (spawnSession childWithoutPid (spawnInto ''/tmp'') idleDaemon)) \<noteq> launches idleDaemon"
    by (simp add: example_defs spawn_defs childWithoutPid_def)
  have b: "fst (spawnSession childWithoutPid (spawnInto ''/tmp'') idleDaemon) =
     Returned (Error ''Failed to spawn Happy process - no PID returned'')"
    using t[of childWithoutPid "spawnInto ''/tmp''"] a l by simp
  have c: "pidToTrackedSession (snd (spawnSession childWithoutPid (spawnInto ''/tmp'') idleDaemon)) = []"
    using t[of childWithoutPid "spawnInto ''/tmp''"] a
    by (simp add: returnsAtOnce_def idleDaemon_def freshDaemon_def)
  have p: "spawnHappyCLI (childWithPid 4242) = Inr (Some 4242)" by (simp add: childWithPid_def)
  note u = t[of "childWithPid 4242" "spawnInto ''/tmp''", THEN conjunct2, THEN conjunct2, rule_format,
      of 0 "spawnedDaemon 4242" 4242]
  have d: "map_of (resolved (run ([Heartbeat []] @ [TimeoutFires 0]) (spawnedDaemon 4242))) 0 =
     Some (Error ''Session webhook timeout for PID 4242'') \<and>
   map_of (pidToAwaiter (run ([Heartbeat []] @ [TimeoutFires 0]) (spawnedDaemon 4242))) 4242 = None"
    using u[of "[Heartbeat []]"] spawned_daemon p by (simp add: print_defs)
  have e: "map_of (pidToTrackedSession (run ([] @ [TimeoutFires 0]) (spawnedDaemon 4242))) 4242 =
     Some (trackedSession ''/tmp'' False 4242)"
    using u[of "[]"] spawned_daemon p spawned_fields(1)
    by (auto simp: timeoutFires_def resolve_def split: option.splits)
  show ?thesis using start a b c spawned_daemon p d e by simp
qed

theorem spawn_without_report_counterexample:
  "spawnSession (childWithPid 4242) (spawnInto ''/tmp'') idleDaemon = (Pending 0, spawnedDaemon 4242) \<and>
   map_of (resolved (run [ChildExited 4242, TimeoutFires 0] (spawnedDaemon 4242))) 0 =
     Some (Error ''Session webhook timeout for PID 4242'') \<and>
   map_of (pidToTrackedSession (run [ChildExited 4242, TimeoutFires 0] (spawnedDaemon 4242))) 4242 = None"
  using spawned_daemon
  by (simp add: spawned_fields timeoutFires_def onChildExited_def resolve_def print_defs)

text \<open>
  C2, as amended. From any state the daemon reaches, when a spawn call is pending for the pid
  of its child and the events handled since, if any, are undisturbed for that pid (no
  webhook for it, no timeout of a call made for it, neither its exit nor a stop by its
  \<open>PID-\<close> id nor a heartbeat that finds it dead, no other spawn that got the same pid):
  \<^item> a webhook that reports this pid leaves the entry of the pid daemon-spawned, with the
    reported session id and metadata, settles the spawn call with success and the reported
    id, clears its timer (so that its timeout does nothing any more) and removes its
    awaiter;
  \<^item> a second webhook for the same pid settles nothing again: promises, timers and awaiters
    stay as the first left them; and whatever events follow, the call stays settled with
    the success of the first report;
  \<^item> in the other order, the webhook first and the registration of the spawn call after it,
    the registration replaces the entry of the pid by one without a session id and the call
    stays pending, its timer armed.
\<close>

theorem report_after_spawn:
  assumes start: "s = run before (freshDaemon paths penv)"
    and spawn: "spawnSession h options s = (Pending c, s1)"
    and child: "spawnHappyCLI h = Inr (Some p)"
    and quiet: "undisturbed p es s1"
    and md: "hostPid md = Some p"
    and md': "hostPid md' = Some p"
  shows "(\<exists>created. map_of (pidToTrackedSession (onHappySessionWebhook sid md (run es s1))) p =
            Some ((trackedSession (directory options) created p)\<lparr>
                    happySessionId := Some sid,
                    happySessionMetadataFromLocalWebhook := Some md\<rparr>)) \<and>
         (\<exists>e. map_of (pidToTrackedSession (onHappySessionWebhook sid md (run es s1))) p = Some e \<and>
              startedBy e = Daemon \<and> happySessionId e = Some sid \<and>
              happySessionMetadataFromLocalWebhook e = Some md \<and> TrackedSession.pid e = p) \<and>
         map_of (resolved (onHappySessionWebhook sid md (run es s1))) c = Some (Success (Some sid)) \<and>
         map_of (timers (onHappySessionWebhook sid md (run es s1))) c = None \<and>
         map_of (pidToAwaiter (onHappySessionWebhook sid md (run es s1))) p = None \<and>
         timeoutFires c (onHappySessionWebhook sid md (run es s1)) =
           onHappySessionWebhook sid md (run es s1) \<and>
         resolved (onHappySessionWebhook sid' md' (onHappySessionWebhook sid md (run es s1))) =
           resolved (onHappySessionWebhook sid md (run es s1)) \<and>
         timers (onHappySessionWebhook sid' md' (onHappySessionWebhook sid md (run es s1))) =
           timers (onHappySessionWebhook sid md (run es s1)) \<and>
         pidToAwaiter (onHappySessionWebhook sid' md' (onHappySessionWebhook sid md (run es s1))) =
           pidToAwaiter (onHappySessionWebhook sid md (run es s1)) \<and>
         map_of (resolved (run later (onHappySessionWebhook sid md (run es s1)))) c =
           Some (Success (Some sid)) \<and>
         (\<exists>created s2.
            spawnSession h options (onHappySessionWebhook sid md s) = (Pending c, s2) \<and>
            map_of (pidToTrackedSession s2) p = Some (trackedSession (directory options) created p) \<and>
            map_of (resolved s2) c = None \<and>
            map_of (pidToAwaiter s2) p = Some c \<and>
            map_of (timers s2) c = Some p)"
proof -
  let ?w = "onHappySessionWebhook sid md (run es s1)"
  have num: "callsNumbered s" using start by (simp add: callsNumbered_reachable)
  from spawn_pending[OF num spawn] child
  obtain created where p0: "p \<noteq> 0" and c: "c = nextCall s" and aw1: "awaiting c p s1"
    and awp1: "map_of (pidToAwaiter s1) p = Some c"
    and reg1: "map_of (pidToTrackedSession s1) p = Some (trackedSession (directory options) created p)"
    by auto
  let ?e = "trackedSession (directory options) created p"
  let ?e' = "?e\<lparr>happySessionId := Some sid, happySessionMetadataFromLocalWebhook := Some md\<rparr>"
  have "s1 = step (SpawnSession h options) s" using spawn by simp
  then have "s1 = run (before @ [SpawnSession h options]) (freshDaemon paths penv)"
    using start by (simp add: run_append)
  then have dist1: "distinct (map fst (pidToTrackedSession s1))"
    by (simp only: distinct_registry_reachable)
  have none: "happySessionId ?e = None" by (simp add: trackedSession_def)
  have "registered c p ?e s1"
    using aw1 awp1 reg1 dist1 by (simp add: registered_def)
  then have "registered c p ?e (run es s1)"
    using none quiet by (rule registered_run)
  then have aw: "awaiting c p (run es s1)"
    and awp: "map_of (pidToAwaiter (run es s1)) p = Some c"
    and reg: "map_of (pidToTrackedSession (run es s1)) p = Some ?e"
    by (simp_all add: registered_def)
  have d: "startedBy ?e = Daemon" by (simp add: trackedSession_def)
  note w = webhook_daemon_entry[where sid = sid, OF md p0 reg d]
  have r1: "map_of (pidToTrackedSession ?w) p = Some ?e'"
    by (simp add: w(1) update_conv')
  have r1': "\<exists>created. map_of (pidToTrackedSession ?w) p =
            Some ((trackedSession (directory options) created p)\<lparr>
                    happySessionId := Some sid,
                    happySessionMetadataFromLocalWebhook := Some md\<rparr>)"
    using r1 by (rule exI)
  have "startedBy ?e' = Daemon \<and> happySessionId ?e' = Some sid \<and>
        happySessionMetadataFromLocalWebhook ?e' = Some md \<and> TrackedSession.pid ?e' = p"
    by (simp add: trackedSession_def)
  then have r1'': "\<exists>e. map_of (pidToTrackedSession ?w) p = Some e \<and>
              startedBy e = Daemon \<and> happySessionId e = Some sid \<and>
              happySessionMetadataFromLocalWebhook e = Some md \<and> TrackedSession.pid e = p"
    using r1 by blast
  have unres: "map_of (resolved (run es s1)) c = None" using aw by (simp add: awaiting_def)
  have r2: "map_of (resolved ?w) c = Some (Success (Some sid))"
    using w(4)[OF awp] unres by simp
  have r3: "map_of (timers ?w) c = None"
    using w(4)[OF awp] by (simp add: map_of_delete_same)
  have r4: "map_of (pidToAwaiter ?w) p = None"
    by (simp add: w(2) map_of_delete_same)
  have r5: "timeoutFires c ?w = ?w"
    using r3 by (simp add: timeoutFires_def)
  have d': "startedBy ?e' = Daemon" by (simp add: trackedSession_def)
  note w' = webhook_daemon_entry[where sid = sid', OF md' p0 r1 d']
  have r6: "resolved (onHappySessionWebhook sid' md' ?w) = resolved ?w"
    and r7: "timers (onHappySessionWebhook sid' md' ?w) = timers ?w"
    using w'(3)[OF r4] by simp_all
  have r8: "pidToAwaiter (onHappySessionWebhook sid' md' ?w) = pidToAwaiter ?w"
    using w'(2) r4 by (simp add: delete_absent)
  have r10: "map_of (resolved (run later ?w)) c = Some (Success (Some sid))"
    using r2 by (rule settled_run)
  let ?s' = "onHappySessionWebhook sid md s"
  have num': "callsNumbered ?s'"
    using callsNumbered_step[OF num, of "SessionWebhook sid md"] by simp
  have "fst (spawnSession h options s) = Pending c" using spawn by simp
  then have "fst (spawnSession h options ?s') = Pending c"
    by (simp add: spawn_pending_iff)
  then obtain s2 where sp': "spawnSession h options ?s' = (Pending c, s2)"
    by (cases "spawnSession h options ?s'") auto
  from spawn_pending[OF num' sp']
  obtain p' created' where q: "spawnHappyCLI h = Inr (Some p')" "awaiting c p' s2"
      "map_of (pidToAwaiter s2) p' = Some c"
      "map_of (pidToTrackedSession s2) p' = Some (trackedSession (directory options) created' p')"
    by blast
  have pp: "p' = p" using q(1) child by simp
  have q2: "map_of (resolved s2) c = None" and q3: "map_of (timers s2) c = Some p"
    using q(2) pp by (simp_all add: awaiting_def)
  have r9: "\<exists>created s2.
            spawnSession h options ?s' = (Pending c, s2) \<and>
            map_of (pidToTrackedSession s2) p = Some (trackedSession (directory options) created p) \<and>
            map_of (resolved s2) c = None \<and>
            map_of (pidToAwaiter s2) p = Some c \<and>
            map_of (timers s2) c = Some p"
    using sp' q(3,4) q2 q3 unfolding pp by blast
  show ?thesis
    by (intro conjI) (fact r1' r1'' r2 r3 r4 r5 r6 r7 r8 r10 r9)+
qed

theorem report_after_spawn_witness:
  "idleDaemon = run [] (freshDaemon {''/tmp''} baseEnv) \<and>
   spawnSession (childWithPid 4242) (spawnInto ''/tmp'') idleDaemon = (Pending 0, spawnedDaemon 4242) \<and>
   spawnHappyCLI (childWithPid 4242) = Inr (Some 4242) \<and>
   undisturbed 4242
     [TimeoutFires 3, Heartbeat [777], SessionWebhook ''session-7'' (reportFrom 777), ChildExited 777,
      StopSession [] ''session-7'']
     (spawnedDaemon 4242) \<and>
   hostPid (reportFrom 4242) = Some 4242 \<and>
   map_of (resolved (onHappySessionWebhook ''session-1'' (reportFrom 4242)
     (run [TimeoutFires 3, Heartbeat [777], SessionWebhook ''session-7'' (reportFrom 777),
           ChildExited 777, StopSession [] ''session-7''] (spawnedDaemon 4242)))) 0 =
     Some (Success (Some ''session-1'')) \<and>
   map_of (timers (onHappySessionWebhook ''session-1'' (reportFrom 4242)
     (run [TimeoutFires 3, Heartbeat [777], SessionWebhook ''session-7'' (reportFrom 777),
           ChildExited 777, StopSession [] ''session-7''] (spawnedDaemon 4242)))) 0 = None \<and>
   map_of (pidToAwaiter (onHappySessionWebhook ''session-1'' (reportFrom 4242)
     (run [TimeoutFires 3, Heartbeat [777], SessionWebhook ''session-7'' (reportFrom 777),
           ChildExited 777, StopSession [] ''session-7''] (spawnedDaemon 4242)))) 4242 = None \<and>
   map_of (pidToTrackedSession (onHappySessionWebhook ''session-1'' (reportFrom 4242) (spawnedDaemon 4242))) 4242 =
     Some \<lparr>startedBy = Daemon, happySessionId = Some ''session-1'',
           happySessionMetadataFromLocalWebhook = Some (reportFrom 4242), pid = 4242,
           childProcess = Some (ChildProcess 4242), directoryCreated = Some False,
           message = None\<rparr> \<and>
   resolved (onHappySessionWebhook ''session-9'' (reportFrom 4242)
              (onHappySessionWebhook ''session-1'' (reportFrom 4242) (spawnedDaemon 4242))) =
     resolved (onHappySessionWebhook ''session-1'' (reportFrom 4242) (spawnedDaemon 4242)) \<and>
   map_of (resolved (run [SessionWebhook ''session-9'' (reportFrom 4242), TimeoutFires 0]
              (onHappySessionWebhook ''session-1'' (reportFrom 4242) (spawnedDaemon 4242)))) 0 =
     Some (Success (Some ''session-1''))"
proof -
  let ?es = "[TimeoutFires 3, Heartbeat [777], SessionWebhook ''session-7'' (reportFrom 777),
              ChildExited 777, StopSession [] ''session-7'']"
  have start: "idleDaemon = run [] (freshDaemon {''/tmp''} baseEnv)"
    by (simp add: idleDaemon_def)
  have p: "spawnHappyCLI (childWithPid 4242) = Inr (Some 4242)" by (simp add: childWithPid_def)
  have m: "hostPid (reportFrom 4242) = Some 4242" by (simp add: reportFrom_def)
  have q: "undisturbed 4242 ?es (spawnedDaemon 4242)"
    by (simp add: spawned_fields reportFrom_def)
  have q0: "undisturbed 4242 [] (spawnedDaemon 4242)" by simp
  note t = report_after_spawn[OF start spawned_daemon p q m m, of "''session-1''" "''session-9''"]
  note t0 = report_after_spawn[OF start spawned_daemon p q0 m m, of "''session-1''" "''session-9''"
      "[SessionWebhook ''session-9'' (reportFrom 4242), TimeoutFires 0]"]
  have entry: "map_of (pidToTrackedSession
       (onHappySessionWebhook ''session-1'' (reportFrom 4242) (spawnedDaemon 4242))) 4242 =
     Some \<lparr>startedBy = Daemon, happySessionId = Some ''session-1'',
           happySessionMetadataFromLocalWebhook = Some (reportFrom 4242), pid = 4242,
           childProcess = Some (ChildProcess 4242), directoryCreated = Some False,
           message = None\<rparr>"
    by (simp add: onHappySessionWebhook_def spawned_fields m trackedSession_def Let_def
        awaiter_def clearTimeout_def)
  show ?thesis using start spawned_daemon p q m t t0 entry by simp
qed

theorem report_before_spawn_counterexample:
  "map_of (resolved (run [SpawnSession (childWithPid 4242) (spawnInto ''/tmp''),
                          SessionWebhook ''session-1'' (reportFrom 4242),
                          TimeoutFires 0] idleDaemon)) 0 =
     Some (Success (Some ''session-1'')) \<and>
   map_of (resolved (run [SessionWebhook ''session-1'' (reportFrom 4242),
                          SpawnSession (childWithPid 4242) (spawnInto ''/tmp''),
                          TimeoutFires 0] idleDaemon)) 0 =
     Some (Error ''Session webhook timeout for PID 4242'') \<and>
   map_of (pidToTrackedSession (run [SessionWebhook ''session-1'' (reportFrom 4242),
                          SpawnSession (childWithPid 4242) (spawnInto ''/tmp''),
                          TimeoutFires 0] idleDaemon)) 4242 =
     Some (trackedSession ''/tmp'' False 4242)"
  by (simp add: example_defs spawn_defs print_defs onHappySessionWebhook_def timeoutFires_def
      awaiter_def clearTimeout_def resolve_def externalSession_def trackedSession_def)

section \<open>Claims about the directory and the environment of a spawn\<close>

lemma launchSession_not_approval:
  "fst (launchSession h options created s) \<noteq> Returned (RequestToApproveDirectoryCreation d)"
  by (cases "resolveAuthEnv h options"; cases "spawnHappyCLI h")
     (auto simp: launchSession_def trackAndAwait_def Let_def split: option.splits)

lemma spawn_unapproved:
  "directory options \<notin> existingPaths s \<Longrightarrow> approvedNewDirectoryCreation options = Some False \<Longrightarrow>
   spawnSession h options s = (Returned (RequestToApproveDirectoryCreation (directory options)), s)"
  by (simp add: spawnSession_def)

lemma spawn_approved:
  "directory options \<notin> existingPaths s \<Longrightarrow> approvedNewDirectoryCreation options \<noteq> Some False \<Longrightarrow>
   mkdirResult h = None \<Longrightarrow>
   spawnSession h options s =
     launchSession h options True
       (s\<lparr>mkdirCalls := mkdirCalls s @ [(directory options, True)],
          existingPaths := insert (directory options) (existingPaths s)\<rparr>)"
  by (auto simp: spawnSession_def Let_def split: option.splits)

lemma spawn_approval_only_explicit:
  "fst (spawnSession h options s) = Returned (RequestToApproveDirectoryCreation d) \<Longrightarrow>
   approvedNewDirectoryCreation options = Some False \<and> directory options \<notin> existingPaths s \<and> d = directory options"
  using launchSession_not_approval[of h options]
  by (auto simp: spawnSession_def Let_def split: option.splits if_splits)

lemma launch_fst:
  "nextCall s' = nextCall s \<Longrightarrow>
   fst (launchSession h options created' s') = fst (launchSession h options created s)"
  by (cases "resolveAuthEnv h options"; cases "spawnHappyCLI h")
     (auto simp: launchSession_def trackAndAwait_def Let_def split: option.splits)

lemma launch_existingPaths:
  "existingPaths (snd (launchSession h options created s)) = existingPaths s \<and>
   mkdirCalls (snd (launchSession h options created s)) = mkdirCalls s"
  by (cases "resolveAuthEnv h options"; cases "spawnHappyCLI h")
     (auto simp: launchSession_def trackAndAwait_def Let_def split: option.splits)

lemma auth_ignores_approval:
  "resolveAuthEnv h (options\<lparr>approvedNewDirectoryCreation := a\<rparr>) = resolveAuthEnv h options"
  "authFiles h (options\<lparr>approvedNewDirectoryCreation := a\<rparr>) = authFiles h options"
  "spawnArgs (options\<lparr>approvedNewDirectoryCreation := a\<rparr>) = spawnArgs options"
  "childEnv penv (options\<lparr>approvedNewDirectoryCreation := a\<rparr>) authEnv = childEnv penv options authEnv"
  by (simp_all add: resolveAuthEnv_def authFiles_def spawnArgs_def childEnv_def
      cong: option.case_cong if_cong)

lemma launch_ignores_approval:
  "launchSession h (options\<lparr>approvedNewDirectoryCreation := a\<rparr>) created s =
   launchSession h options created s"
  by (simp add: launchSession_def auth_ignores_approval Let_def cong: sum.case_cong option.case_cong if_cong)

lemma childEnv_lookup:
  "childEnv penv options authEnv k =
     (case authEnv k of
        Some v \<Rightarrow> Some v
      | None \<Rightarrow>
          (case (case environmentVariables options of Some userEnv \<Rightarrow> userEnv | None \<Rightarrow> Map.empty) k of
             Some v \<Rightarrow> Some v
           | None \<Rightarrow> penv k))"
  by (simp add: childEnv_def map_add_def split: option.splits)

lemma spawn_launches:
  "launches (snd (spawnSession h options s)) = launches s \<or>
   (\<exists>authEnv. resolveAuthEnv h options = Inr authEnv \<and>
      launches (snd (spawnSession h options s)) =
        launches s @ [\<lparr>args = spawnArgs options, cwd = directory options, detached = True,
                        env = childEnv (processEnv s) options authEnv\<rparr>])"
proof -
  have l: "launches (snd (launchSession h options created s')) = launches s \<or>
   (\<exists>authEnv. resolveAuthEnv h options = Inr authEnv \<and>
      launches (snd (launchSession h options created s')) =
        launches s @ [\<lparr>args = spawnArgs options, cwd = directory options, detached = True,
                        env = childEnv (processEnv s) options authEnv\<rparr>])"
    if "launches s' = launches s" "processEnv s' = processEnv s" for created s'
    using that
    by (cases "resolveAuthEnv h options"; cases "spawnHappyCLI h")
       (auto simp: launchSession_def trackAndAwait_def Let_def split: option.splits)
  show ?thesis
  proof (cases "directory options \<in> existingPaths s")
    case True
    then have "spawnSession h options s = launchSession h options False s"
      by (simp add: spawnSession_def)
    then show ?thesis using l[of s False] by simp
  next
    case absent: False
    show ?thesis
    proof (cases "approvedNewDirectoryCreation options = Some False")
      case True
      then show ?thesis using absent by (simp add: spawnSession_def)
    next
      case False
      show ?thesis
      proof (cases "mkdirResult h")
        case None
        then show ?thesis
          using spawn_approved[OF absent False None]
            l[of "s\<lparr>mkdirCalls := mkdirCalls s @ [(directory options, True)],
                 existingPaths := insert (directory options) (existingPaths s)\<rparr>" True]
          by simp
      next
        case (Some e)
        then show ?thesis using absent False
          by (cases "approvedNewDirectoryCreation options") (auto simp: spawnSession_def)
      qed
    qed
  qed
qed

lemma spawn_creates_and_launches:
  assumes "directory options \<notin> existingPaths s"
    and "approvedNewDirectoryCreation options \<noteq> Some False"
    and "mkdirResult h = None"
    and "resolveAuthEnv h options = Inr authEnv"
    and "spawnHappyCLI h = Inr (Some p)" "p \<noteq> 0"
  shows "spawnSession h options s =
     (Pending (nextCall s),
      s\<lparr>mkdirCalls := mkdirCalls s @ [(directory options, True)],
        existingPaths := insert (directory options) (existingPaths s),
        writtenFiles := writtenFiles s @ authFiles h options,
        launches := launches s @
          [\<lparr>args = spawnArgs options, cwd = directory options, detached = True,
            env = childEnv (processEnv s) options authEnv\<rparr>],
        pidToTrackedSession :=
          AList.update p
            \<lparr>startedBy = Daemon, happySessionId = None,
             happySessionMetadataFromLocalWebhook = None, pid = p,
             childProcess = Some (ChildProcess p), directoryCreated = Some True,
             message = Some (''The path '' @ quoted (directory options) @
               '' did not exist. We created a new folder and spawned a new session there.'')\<rparr>
            (pidToTrackedSession s),
        timers := AList.update (nextCall s) p (timers s),
        pidToAwaiter := AList.update p (nextCall s) (pidToAwaiter s),
        nextCall := Suc (nextCall s)\<rparr>)"
  unfolding spawn_approved[OF assms(1,2,3)]
  using assms(4,5,6)
  by (simp add: launchSession_def trackAndAwait_def trackedSession_def Let_def)

text \<open>
  C7. A spawn into a directory that does not exist:
  \<^item> with \<open>approvedNewDirectoryCreation = false\<close> it returns
    \<open>{type: requestToApproveDirectoryCreation, directory}\<close> and changes nothing: no
    directory is made, no child is launched;
  \<^item> with \<open>approvedNewDirectoryCreation = true\<close>, once \<open>fs.mkdir(directory, {recursive: true})\<close>
    has made the directory, the spawn goes on from the launch of the child as it does for a
    directory that exists: it returns, or stays pending, as it would have there;
  \<^item> so, with the credentials resolved and a child that has a pid, the call launches one
    child with the new directory as its working directory, registers it under its pid as a
    daemon-spawned session with \<open>directoryCreated = true\<close> and the message about the new
    folder, arms the timeout, registers the awaiter and stays pending;
  \<^item> where \<open>fs.mkdir\<close> throws instead, the call returns the error message built for the
    error code and launches nothing.
\<close>

theorem directory_creation_approval:
  assumes "directory options \<notin> existingPaths s"
  shows "(approvedNewDirectoryCreation options = Some False \<longrightarrow>
            spawnSession h options s =
              (Returned (RequestToApproveDirectoryCreation (directory options)), s)) \<and>
         (approvedNewDirectoryCreation options = Some True \<and> mkdirResult h = None \<longrightarrow>
            spawnSession h options s =
              launchSession h options True
                (s\<lparr>mkdirCalls := mkdirCalls s @ [(directory options, True)],
                   existingPaths := insert (directory options) (existingPaths s)\<rparr>) \<and>
            directory options \<in> existingPaths (snd (spawnSession h options s)) \<and>
            mkdirCalls (snd (spawnSession h options s)) = mkdirCalls s @ [(directory options, True)] \<and>
            fst (spawnSession h options s) =
              fst (spawnSession h options (s\<lparr>existingPaths := insert (directory options) (existingPaths s)\<rparr>))) \<and>
         (\<forall>authEnv p.
            approvedNewDirectoryCreation options = Some True \<and> mkdirResult h = None \<and>
            resolveAuthEnv h options = Inr authEnv \<and> spawnHappyCLI h = Inr (Some p) \<and> p \<noteq> 0 \<longrightarrow>
            spawnSession h options s =
              (Pending (nextCall s),
               s\<lparr>mkdirCalls := mkdirCalls s @ [(directory options, True)],
                 existingPaths := insert (directory options) (existingPaths s),
                 writtenFiles := writtenFiles s @ authFiles h options,
                 launches := launches s @
                   [\<lparr>args = spawnArgs options, cwd = directory options, detached = True,
                     env = childEnv (processEnv s) options authEnv\<rparr>],
                 pidToTrackedSession :=
                   AList.update p
                     \<lparr>startedBy = Daemon, happySessionId = None,
                      happySessionMetadataFromLocalWebhook = None, pid = p,
                      childProcess = Some (ChildProcess p), directoryCreated = Some True,
                      message = Some (''The path '' @ quoted (directory options) @
                        '' did not exist. We created a new folder and spawned a new session there.'')\<rparr>
                     (pidToTrackedSession s),
                 timers := AList.update (nextCall s) p (timers s),
                 pidToAwaiter := AList.update p (nextCall s) (pidToAwaiter s),
                 nextCall := Suc (nextCall s)\<rparr>) \<and>
            map_of (pidToAwaiter (snd (spawnSession h options s))) p = Some (nextCall s) \<and>
            map_of (timers (snd (spawnSession h options s))) (nextCall s) = Some p) \<and>
         (\<forall>e. approvedNewDirectoryCreation options = Some True \<and> mkdirResult h = Some e \<longrightarrow>
            spawnSession h options s =
              (Returned (Error (mkdirErrorMessage (directory options) e)),
               s\<lparr>mkdirCalls := mkdirCalls s @ [(directory options, True)]\<rparr>))"
proof (intro conjI impI allI)
  assume "approvedNewDirectoryCreation options = Some False"
  then show "spawnSession h options s =
              (Returned (RequestToApproveDirectoryCreation (directory options)), s)"
    using assms by (rule spawn_unapproved[rotated])
next
  assume a: "approvedNewDirectoryCreation options = Some True \<and> mkdirResult h = None"
  let ?s1 = "s\<lparr>mkdirCalls := mkdirCalls s @ [(directory options, True)],
                   existingPaths := insert (directory options) (existingPaths s)\<rparr>"
  show eq: "spawnSession h options s = launchSession h options True ?s1"
    using assms a by (simp add: spawn_approved)
  show "directory options \<in> existingPaths (snd (spawnSession h options s))"
    by (simp add: eq launch_existingPaths)
  show "mkdirCalls (snd (spawnSession h options s)) = mkdirCalls s @ [(directory options, True)]"
    by (simp add: eq launch_existingPaths)
  have "spawnSession h options (s\<lparr>existingPaths := insert (directory options) (existingPaths s)\<rparr>) =
          launchSession h options False (s\<lparr>existingPaths := insert (directory options) (existingPaths s)\<rparr>)"
    by (simp add: spawnSession_def)
  then show "fst (spawnSession h options s) =
              fst (spawnSession h options (s\<lparr>existingPaths := insert (directory options) (existingPaths s)\<rparr>))"
    by (simp add: eq launch_fst)
next
  fix authEnv p
  assume a: "approvedNewDirectoryCreation options = Some True \<and> mkdirResult h = None \<and>
            resolveAuthEnv h options = Inr authEnv \<and> spawnHappyCLI h = Inr (Some p) \<and> p \<noteq> 0"
  then have b: "approvedNewDirectoryCreation options \<noteq> Some False" "mkdirResult h = None"
      "resolveAuthEnv h options = Inr authEnv" "spawnHappyCLI h = Inr (Some p)" "p \<noteq> 0"
    by simp_all
  note eq = spawn_creates_and_launches[OF assms b]
  show "spawnSession h options s =
              (Pending (nextCall s),
               s\<lparr>mkdirCalls := mkdirCalls s @ [(directory options, True)],
                 existingPaths := insert (directory options) (existingPaths s),
                 writtenFiles := writtenFiles s @ authFiles h options,
                 launches := launches s @
                   [\<lparr>args = spawnArgs options, cwd = directory options, detached = True,
                     env = childEnv (processEnv s) options authEnv\<rparr>],
                 pidToTrackedSession :=
                   AList.update p
                     \<lparr>startedBy = Daemon, happySessionId = None,
                      happySessionMetadataFromLocalWebhook = None, pid = p,
                      childProcess = Some (ChildProcess p), directoryCreated = Some True,
                      message = Some (''The path '' @ quoted (directory options) @
                        '' did not exist. We created a new folder and spawned a new session there.'')\<rparr>
                     (pidToTrackedSession s),
                 timers := AList.update (nextCall s) p (timers s),
                 pidToAwaiter := AList.update p (nextCall s) (pidToAwaiter s),
                 nextCall := Suc (nextCall s)\<rparr>)"
    by (rule eq)
  show "map_of (pidToAwaiter (snd (spawnSession h options s))) p = Some (nextCall s)"
    by (simp add: eq update_conv')
  show "map_of (timers (snd (spawnSession h options s))) (nextCall s) = Some p"
    by (simp add: eq update_conv')
next
  fix e
  assume "approvedNewDirectoryCreation options = Some True \<and> mkdirResult h = Some e"
  then show "spawnSession h options s =
              (Returned (Error (mkdirErrorMessage (directory options) e)),
               s\<lparr>mkdirCalls := mkdirCalls s @ [(directory options, True)]\<rparr>)"
    using assms by (simp add: spawnSession_def)
qed

theorem directory_creation_approval_witness:
  "directory (newProject (Some False)) \<notin> existingPaths idleDaemon \<and>
   approvedNewDirectoryCreation (newProject (Some False)) = Some False \<and>
   spawnSession (childWithPid 4242) (newProject (Some False)) idleDaemon =
     (Returned (RequestToApproveDirectoryCreation ''/home/user/new-project''), idleDaemon) \<and>
   launches idleDaemon = [] \<and> mkdirCalls idleDaemon = [] \<and>
   approvedNewDirectoryCreation (newProject (Some True)) = Some True \<and>
   mkdirResult (childWithPid 4242) = None \<and>
   resolveAuthEnv (childWithPid 4242) (newProject (Some True)) =
     Inr [''CLAUDE_CODE_OAUTH_TOKEN'' \<mapsto> ''secret-token''] \<and>
   spawnHappyCLI (childWithPid 4242) = Inr (Some 4242) \<and>
   fst (spawnSession (childWithPid 4242) (newProject (Some True)) idleDaemon) = Pending 0 \<and>
   ''/home/user/new-project'' \<in>
     existingPaths (snd (spawnSession (childWithPid 4242) (newProject (Some True)) idleDaemon)) \<and>
   mkdirCalls (snd (spawnSession (childWithPid 4242) (newProject (Some True)) idleDaemon)) =
     [(''/home/user/new-project'', True)] \<and>
   map cwd (launches (snd (spawnSession (childWithPid 4242) (newProject (Some True)) idleDaemon))) =
     [''/home/user/new-project''] \<and>
   map args (launches (snd (spawnSession (childWithPid 4242) (newProject (Some True)) idleDaemon))) =
     [[''claude'', ''--happy-starting-mode'', ''remote'', ''--started-by'', ''daemon'']] \<and>
   pidToTrackedSession (snd (spawnSession (childWithPid 4242) (newProject (Some True)) idleDaemon)) =
     [(4242, \<lparr>startedBy = Daemon, happySessionId = None,
              happySessionMetadataFromLocalWebhook = None, pid = 4242,
              childProcess = Some (ChildProcess 4242), directoryCreated = Some True,
              message = Some (''The path '' @ quoted ''/home/user/new-project'' @
                '' did not exist. We created a new folder and spawned a new session there.'')\<rparr>)] \<and>
   pidToAwaiter (snd (spawnSession (childWithPid 4242) (newProject (Some True)) idleDaemon)) =
     [(4242, 0)] \<and>
   timers (snd (spawnSession (childWithPid 4242) (newProject (Some True)) idleDaemon)) =
     [(0, 4242)] \<and>
   mkdirResult mkdirDenied = Some EACCES \<and>
   fst (spawnSession mkdirDenied (newProject (Some True)) idleDaemon) =
     Returned (Error (mkdirErrorMessage ''/home/user/new-project'' EACCES)) \<and>
   launches (snd (spawnSession mkdirDenied (newProject (Some True)) idleDaemon)) = []"
proof -
  have a: "directory (newProject x) \<notin> existingPaths idleDaemon" for x
    by (simp add: newProject_def idleDaemon_def freshDaemon_def)
  have d: "directory (newProject x) = ''/home/user/new-project''" for x
    by (simp add: newProject_def)
  have f: "approvedNewDirectoryCreation (newProject x) = x" for x
    by (simp add: newProject_def)
  have m: "mkdirResult (childWithPid 4242) = None" by (simp add: childWithPid_def)
  have m': "mkdirResult mkdirDenied = Some EACCES" by (simp add: mkdirDenied_def)
  have r: "resolveAuthEnv (childWithPid 4242) (newProject (Some True)) =
     Inr [''CLAUDE_CODE_OAUTH_TOKEN'' \<mapsto> ''secret-token'']"
    by (simp add: resolveAuthEnv_def newProject_def)
  have c: "spawnHappyCLI (childWithPid 4242) = Inr (Some 4242)" by (simp add: childWithPid_def)
  have e: "mkdirCalls idleDaemon = []" "launches idleDaemon = []" "pidToTrackedSession idleDaemon = []"
    "pidToAwaiter idleDaemon = []" "timers idleDaemon = []" "nextCall idleDaemon = 0"
    by (simp_all add: idleDaemon_def freshDaemon_def)
  have g: "spawnArgs (newProject (Some True)) =
     [''claude'', ''--happy-starting-mode'', ''remote'', ''--started-by'', ''daemon'']"
    by (simp add: spawnArgs_def newProject_def)
  note no = directory_creation_approval[OF a, THEN conjunct1, rule_format, OF f,
      of "childWithPid 4242"]
  note yes = directory_creation_approval[OF a, THEN conjunct2, THEN conjunct1, rule_format,
      OF conjI[OF f m]]
  have p0: "(4242::int) \<noteq> 0" by simp
  note launched = directory_creation_approval[OF a, THEN conjunct2, THEN conjunct2, THEN conjunct1,
      rule_format, OF conjI[OF f conjI[OF m conjI[OF r conjI[OF c p0]]]], THEN conjunct1]
  note denied = directory_creation_approval[OF a, THEN conjunct2, THEN conjunct2, THEN conjunct2,
      rule_format, OF conjI[OF f m']]
  have l1: "fst (spawnSession (childWithPid 4242) (newProject (Some True)) idleDaemon) = Pending 0"
    unfolding launched by (simp add: e)
  have l2: "map cwd (launches (snd (spawnSession (childWithPid 4242) (newProject (Some True)) idleDaemon))) =
     [''/home/user/new-project'']"
    unfolding launched by (simp add: e d)
  have l3: "map args (launches (snd (spawnSession (childWithPid 4242) (newProject (Some True)) idleDaemon))) =
     [[''claude'', ''--happy-starting-mode'', ''remote'', ''--started-by'', ''daemon'']]"
    unfolding launched by (simp add: e g)
  have l4: "pidToTrackedSession (snd (spawnSession (childWithPid 4242) (newProject (Some True)) idleDaemon)) =
     [(4242, \<lparr>startedBy = Daemon, happySessionId = None,
              happySessionMetadataFromLocalWebhook = None, pid = 4242,
              childProcess = Some (ChildProcess 4242), directoryCreated = Some True,
              message = Some (''The path '' @ quoted ''/home/user/new-project'' @
                '' did not exist. We created a new folder and spawned a new session there.'')\<rparr>)]"
    unfolding launched by (simp add: e d)
  have l5: "pidToAwaiter (snd (spawnSession (childWithPid 4242) (newProject (Some True)) idleDaemon)) =
     [(4242, 0)]"
    "timers (snd (spawnSession (childWithPid 4242) (newProject (Some True)) idleDaemon)) =
     [(0, 4242)]"
    unfolding launched by (simp_all add: e)
  show ?thesis
    using a[of "Some False"] f[of "Some False"] no f[of "Some True"] m r c
      yes[THEN conjunct2, THEN conjunct1] yes[THEN conjunct2, THEN conjunct2, THEN conjunct1]
      m' denied l1 l2 l3 l4 l5
    by (simp add: d e)
qed

text \<open>
  C9. With \<open>approvedNewDirectoryCreation\<close> absent from the options, the spawn does what it
  does with \<open>approvedNewDirectoryCreation = true\<close>: for a directory that does not exist it
  calls \<open>fs.mkdir(directory, {recursive: true})\<close> and, once the directory is made, goes on
  with the launch; with the credentials resolved and a child that has a pid it launches the
  child in the new directory, registers the session and its awaiter and stays pending.
  The result \<open>requestToApproveDirectoryCreation\<close> is returned only for an explicit
  \<open>approvedNewDirectoryCreation = false\<close>, and then for a directory that does not exist.
\<close>

theorem approval_defaults_to_true:
  "(approvedNewDirectoryCreation options = None \<longrightarrow>
      spawnSession h options s =
        spawnSession h (options\<lparr>approvedNewDirectoryCreation := Some True\<rparr>) s \<and>
      (directory options \<notin> existingPaths s \<longrightarrow>
         mkdirCalls (snd (spawnSession h options s)) = mkdirCalls s @ [(directory options, True)]) \<and>
      (directory options \<notin> existingPaths s \<and> mkdirResult h = None \<longrightarrow>
         directory options \<in> existingPaths (snd (spawnSession h options s)) \<and>
         spawnSession h options s =
           launchSession h options True
             (s\<lparr>mkdirCalls := mkdirCalls s @ [(directory options, True)],
                existingPaths := insert (directory options) (existingPaths s)\<rparr>)) \<and>
      (\<forall>authEnv p.
         directory options \<notin> existingPaths s \<and> mkdirResult h = None \<and>
         resolveAuthEnv h options = Inr authEnv \<and> spawnHappyCLI h = Inr (Some p) \<and> p \<noteq> 0 \<longrightarrow>
         spawnSession h options s =
           (Pending (nextCall s),
            s\<lparr>mkdirCalls := mkdirCalls s @ [(directory options, True)],
              existingPaths := insert (directory options) (existingPaths s),
              writtenFiles := writtenFiles s @ authFiles h options,
              launches := launches s @
                [\<lparr>args = spawnArgs options, cwd = directory options, detached = True,
                  env = childEnv (processEnv s) options authEnv\<rparr>],
              pidToTrackedSession :=
                AList.update p
                  \<lparr>startedBy = Daemon, happySessionId = None,
                   happySessionMetadataFromLocalWebhook = None, pid = p,
                   childProcess = Some (ChildProcess p), directoryCreated = Some True,
                   message = Some (''The path '' @ quoted (directory options) @
                     '' did not exist. We created a new folder and spawned a new session there.'')\<rparr>
                  (pidToTrackedSession s),
              timers := AList.update (nextCall s) p (timers s),
              pidToAwaiter := AList.update p (nextCall s) (pidToAwaiter s),
              nextCall := Suc (nextCall s)\<rparr>))) \<and>
   (\<forall>d. fst (spawnSession h options s) = Returned (RequestToApproveDirectoryCreation d) \<longrightarrow>
        approvedNewDirectoryCreation options = Some False \<and>
        directory options \<notin> existingPaths s \<and> d = directory options)"
proof (intro conjI impI allI)
  assume n: "approvedNewDirectoryCreation options = None"
  show "spawnSession h options s =
        spawnSession h (options\<lparr>approvedNewDirectoryCreation := Some True\<rparr>) s"
    using n by (simp add: spawnSession_def launch_ignores_approval Let_def cong: option.case_cong if_cong)
  {
    assume d: "directory options \<notin> existingPaths s"
    show "mkdirCalls (snd (spawnSession h options s)) = mkdirCalls s @ [(directory options, True)]"
      using n d by (cases "mkdirResult h") (simp_all add: spawnSession_def launch_existingPaths)
  }
  {
    assume d: "directory options \<notin> existingPaths s \<and> mkdirResult h = None"
    show eq: "spawnSession h options s =
           launchSession h options True
             (s\<lparr>mkdirCalls := mkdirCalls s @ [(directory options, True)],
                existingPaths := insert (directory options) (existingPaths s)\<rparr>)"
      using n d by (simp add: spawn_approved)
    show "directory options \<in> existingPaths (snd (spawnSession h options s))"
      by (simp add: eq launch_existingPaths)
  }
  {
    fix authEnv p
    assume a: "directory options \<notin> existingPaths s \<and> mkdirResult h = None \<and>
         resolveAuthEnv h options = Inr authEnv \<and> spawnHappyCLI h = Inr (Some p) \<and> p \<noteq> 0"
    have b: "approvedNewDirectoryCreation options \<noteq> Some False" using n by simp
    from a have c: "directory options \<notin> existingPaths s" "mkdirResult h = None"
      "resolveAuthEnv h options = Inr authEnv" "spawnHappyCLI h = Inr (Some p)" "p \<noteq> 0"
      by simp_all
    show "spawnSession h options s =
           (Pending (nextCall s),
            s\<lparr>mkdirCalls := mkdirCalls s @ [(directory options, True)],
              existingPaths := insert (directory options) (existingPaths s),
              writtenFiles := writtenFiles s @ authFiles h options,
              launches := launches s @
                [\<lparr>args = spawnArgs options, cwd = directory options, detached = True,
                  env = childEnv (processEnv s) options authEnv\<rparr>],
              pidToTrackedSession :=
                AList.update p
                  \<lparr>startedBy = Daemon, happySessionId = None,
                   happySessionMetadataFromLocalWebhook = None, pid = p,
                   childProcess = Some (ChildProcess p), directoryCreated = Some True,
                   message = Some (''The path '' @ quoted (directory options) @
                     '' did not exist. We created a new folder and spawned a new session there.'')\<rparr>
                  (pidToTrackedSession s),
              timers := AList.update (nextCall s) p (timers s),
              pidToAwaiter := AList.update p (nextCall s) (pidToAwaiter s),
              nextCall := Suc (nextCall s)\<rparr>)"
      by (rule spawn_creates_and_launches[OF c(1) b c(2,3,4,5)])
  }
next
  fix d
  assume "fst (spawnSession h options s) = Returned (RequestToApproveDirectoryCreation d)"
  then show "approvedNewDirectoryCreation options = Some False"
    "directory options \<notin> existingPaths s" "d = directory options"
    using spawn_approval_only_explicit[of h options s d] by simp_all
qed

theorem approval_defaults_to_true_witness:
  "approvedNewDirectoryCreation (newProject None) = None \<and>
   directory (newProject None) \<notin> existingPaths idleDaemon \<and>
   mkdirResult (childWithPid 4242) = None \<and>
   resolveAuthEnv (childWithPid 4242) (newProject None) =
     Inr [''CLAUDE_CODE_OAUTH_TOKEN'' \<mapsto> ''secret-token''] \<and>
   spawnHappyCLI (childWithPid 4242) = Inr (Some 4242) \<and>
   spawnSession (childWithPid 4242) (newProject None) idleDaemon =
     spawnSession (childWithPid 4242) ((newProject None)\<lparr>approvedNewDirectoryCreation := Some True\<rparr>) idleDaemon \<and>
   mkdirCalls (snd (spawnSession (childWithPid 4242) (newProject None) idleDaemon)) =
     [(''/home/user/new-project'', True)] \<and>
   ''/home/user/new-project'' \<in>
     existingPaths (snd (spawnSession (childWithPid 4242) (newProject None) idleDaemon)) \<and>
   fst (spawnSession (childWithPid 4242) (newProject None) idleDaemon) = Pending 0 \<and>
   map cwd (launches (snd (spawnSession (childWithPid 4242) (newProject None) idleDaemon))) =
     [''/home/user/new-project''] \<and>
   map args (launches (snd (spawnSession (childWithPid 4242) (newProject None) idleDaemon))) =
     [[''claude'', ''--happy-starting-mode'', ''remote'', ''--started-by'', ''daemon'']] \<and>
   map fst (pidToTrackedSession (snd (spawnSession (childWithPid 4242) (newProject None) idleDaemon))) =
     [4242] \<and>
   map (startedBy \<circ> snd)
     (pidToTrackedSession (snd (spawnSession (childWithPid 4242) (newProject None) idleDaemon))) =
     [Daemon] \<and>
   map (directoryCreated \<circ> snd)
     (pidToTrackedSession (snd (spawnSession (childWithPid 4242) (newProject None) idleDaemon))) =
     [Some True] \<and>
   pidToAwaiter (snd (spawnSession (childWithPid 4242) (newProject None) idleDaemon)) = [(4242, 0)] \<and>
   timers (snd (spawnSession (childWithPid 4242) (newProject None) idleDaemon)) = [(0, 4242)] \<and>
   fst (spawnSession (childWithPid 4242) (newProject (Some False)) idleDaemon) =
     Returned (RequestToApproveDirectoryCreation ''/home/user/new-project'') \<and>
   approvedNewDirectoryCreation (newProject (Some False)) = Some False"
proof -
  let ?out = "snd (spawnSession (childWithPid 4242) (newProject None) idleDaemon)"
  have a: "directory (newProject x) \<notin> existingPaths idleDaemon" for x
    by (simp add: newProject_def idleDaemon_def freshDaemon_def)
  have d: "directory (newProject x) = ''/home/user/new-project''" for x
    by (simp add: newProject_def)
  have f: "approvedNewDirectoryCreation (newProject x) = x" for x
    by (simp add: newProject_def)
  have m: "mkdirResult (childWithPid 4242) = None" by (simp add: childWithPid_def)
  have r: "resolveAuthEnv (childWithPid 4242) (newProject None) =
     Inr [''CLAUDE_CODE_OAUTH_TOKEN'' \<mapsto> ''secret-token'']"
    by (simp add: resolveAuthEnv_def newProject_def)
  have c: "spawnHappyCLI (childWithPid 4242) = Inr (Some 4242)" by (simp add: childWithPid_def)
  have p0: "(4242::int) \<noteq> 0" by simp
  have e: "mkdirCalls idleDaemon = []" "launches idleDaemon = []" "pidToTrackedSession idleDaemon = []"
    "pidToAwaiter idleDaemon = []" "timers idleDaemon = []" "nextCall idleDaemon = 0"
    by (simp_all add: idleDaemon_def freshDaemon_def)
  have g: "spawnArgs (newProject None) =
     [''claude'', ''--happy-starting-mode'', ''remote'', ''--started-by'', ''daemon'']"
    by (simp add: spawnArgs_def newProject_def)
  note t = approval_defaults_to_true[of "newProject None" "childWithPid 4242" idleDaemon,
      THEN conjunct1, rule_format, OF f]
  note launched = t[THEN conjunct2, THEN conjunct2, THEN conjunct2, rule_format,
      OF conjI[OF a conjI[OF m conjI[OF r conjI[OF c p0]]]]]
  have l1: "fst (spawnSession (childWithPid 4242) (newProject None) idleDaemon) = Pending 0"
    unfolding launched by (simp add: e)
  have l2: "map cwd (launches ?out) = [''/home/user/new-project'']"
    unfolding launched by (simp add: e d)
  have l3: "map args (launches ?out) =
     [[''claude'', ''--happy-starting-mode'', ''remote'', ''--started-by'', ''daemon'']]"
    unfolding launched by (simp add: e g)
  have l4: "map fst (pidToTrackedSession ?out) = [4242]"
    "map (startedBy \<circ> snd) (pidToTrackedSession ?out) = [Daemon]"
    "map (directoryCreated \<circ> snd) (pidToTrackedSession ?out) = [Some True]"
    unfolding launched by (simp_all add: e)
  have l5: "pidToAwaiter ?out = [(4242, 0)]" "timers ?out = [(0, 4242)]"
    unfolding launched by (simp_all add: e)
  have q: "fst (spawnSession (childWithPid 4242) (newProject (Some False)) idleDaemon) =
     Returned (RequestToApproveDirectoryCreation ''/home/user/new-project'')"
    using a[of "Some False"] by (simp add: spawnSession_def f d)
  note u = approval_defaults_to_true[of "newProject (Some False)" "childWithPid 4242" idleDaemon,
      THEN conjunct2, rule_format, OF q]
  show ?thesis
    using f[of None] a[of None] m r c t[THEN conjunct1]
      t[THEN conjunct2, THEN conjunct1, rule_format, OF a]
      t[THEN conjunct2, THEN conjunct2, THEN conjunct1, rule_format, OF conjI[OF a m], THEN conjunct1]
      l1 l2 l3 l4 l5 q u[THEN conjunct1]
    by (simp add: d e)
qed

text \<open>
  C8. Whenever a spawn call launches a child, it launches one, with the environment
  \<open>{...process.env, ...userEnv, ...authEnv}\<close>: for every key, the value of the auth material
  if it has the key, else the caller-supplied value if there is one, else the value of the
  daemon's own environment.
\<close>

theorem child_environment_precedence:
  assumes "launches (snd (spawnSession h options s)) \<noteq> launches s"
  shows "\<exists>authEnv. resolveAuthEnv h options = Inr authEnv \<and>
           launches (snd (spawnSession h options s)) =
             launches s @ [\<lparr>args = spawnArgs options, cwd = directory options, detached = True,
                             env = childEnv (processEnv s) options authEnv\<rparr>] \<and>
           (\<forall>k. childEnv (processEnv s) options authEnv k =
              (case authEnv k of
                 Some v \<Rightarrow> Some v
               | None \<Rightarrow>
                   (case (case environmentVariables options of
                            Some userEnv \<Rightarrow> userEnv | None \<Rightarrow> Map.empty) k of
                      Some v \<Rightarrow> Some v
                    | None \<Rightarrow> processEnv s k)))"
  using assms spawn_launches[of h options s] childEnv_lookup[of "processEnv s" options]
  by auto

theorem child_environment_precedence_witness:
  "launches (snd (spawnSession (childWithPid 4242) (newProject (Some True)) idleDaemon)) \<noteq>
     launches idleDaemon \<and>
   resolveAuthEnv (childWithPid 4242) (newProject (Some True)) =
     Inr [''CLAUDE_CODE_OAUTH_TOKEN'' \<mapsto> ''secret-token''] \<and>
   env (last (launches (snd (spawnSession (childWithPid 4242) (newProject (Some True)) idleDaemon))))
     ''CLAUDE_CODE_OAUTH_TOKEN'' = Some ''secret-token'' \<and>
   env (last (launches (snd (spawnSession (childWithPid 4242) (newProject (Some True)) idleDaemon))))
     ''PATH'' = Some ''/opt/bin'' \<and>
   env (last (launches (snd (spawnSession (childWithPid 4242) (newProject (Some True)) idleDaemon))))
     ''HOME'' = Some ''/home/user''"
proof -
  let ?out = "snd (spawnSession (childWithPid 4242) (newProject (Some True)) idleDaemon)"
  have a: "directory (newProject x) \<notin> existingPaths idleDaemon" for x
    by (simp add: newProject_def idleDaemon_def freshDaemon_def)
  have f: "approvedNewDirectoryCreation (newProject (Some True)) \<noteq> Some False"
    by (simp add: newProject_def)
  have m: "mkdirResult (childWithPid 4242) = None" by (simp add: childWithPid_def)
  have r: "resolveAuthEnv (childWithPid 4242) (newProject (Some True)) =
     Inr [''CLAUDE_CODE_OAUTH_TOKEN'' \<mapsto> ''secret-token'']"
    by (simp add: resolveAuthEnv_def newProject_def)
  have c: "spawnHappyCLI (childWithPid 4242) = Inr (Some 4242)" by (simp add: childWithPid_def)
  have l: "launches ?out \<noteq> launches idleDaemon"
    unfolding spawn_approved[OF a f m]
    by (simp add: launchSession_def r c trackAndAwait_def Let_def)
  from child_environment_precedence[OF l] r
  have e: "launches ?out =
             launches idleDaemon @ [\<lparr>args = spawnArgs (newProject (Some True)),
                cwd = directory (newProject (Some True)), detached = True,
                env = childEnv (processEnv idleDaemon) (newProject (Some True))
                        [''CLAUDE_CODE_OAUTH_TOKEN'' \<mapsto> ''secret-token'']\<rparr>]"
    and k: "childEnv (processEnv idleDaemon) (newProject (Some True))
                        [''CLAUDE_CODE_OAUTH_TOKEN'' \<mapsto> ''secret-token''] k =
              (case [''CLAUDE_CODE_OAUTH_TOKEN'' \<mapsto> ''secret-token''] k of
                 Some v \<Rightarrow> Some v
               | None \<Rightarrow>
                   (case (case environmentVariables (newProject (Some True)) of
                            Some userEnv \<Rightarrow> userEnv | None \<Rightarrow> Map.empty) k of
                      Some v \<Rightarrow> Some v
                    | None \<Rightarrow> processEnv idleDaemon k))" for k
    by auto
  have v: "env (last (launches ?out)) k =
              (case [''CLAUDE_CODE_OAUTH_TOKEN'' \<mapsto> ''secret-token''] k of
                 Some v \<Rightarrow> Some v
               | None \<Rightarrow>
                   (case (case environmentVariables (newProject (Some True)) of
                            Some userEnv \<Rightarrow> userEnv | None \<Rightarrow> Map.empty) k of
                      Some v \<Rightarrow> Some v
                    | None \<Rightarrow> processEnv idleDaemon k))" for k
    by (simp add: e k)
  have v1: "env (last (launches ?out)) ''CLAUDE_CODE_OAUTH_TOKEN'' = Some ''secret-token''"
    unfolding v by simp
  have v2: "env (last (launches ?out)) ''PATH'' = Some ''/opt/bin''"
    unfolding v by (simp add: newProject_def)
  have v3: "env (last (launches ?out)) ''HOME'' = Some ''/home/user''"
    unfolding v by (simp add: newProject_def idleDaemon_def freshDaemon_def baseEnv_def)
  show ?thesis
    using l r v1 v2 v3 by simp
qed

section \<open>Claims about stopping a session\<close>





















section \<open>Claims about the optimistic updates\<close>

lemma decryptWithDataKey_gives: "decryptWithDataKey prims bundle \<noteq> Raises"
  by (auto simp: decryptWithDataKey_def Let_def split: Evaluated.splits)

lemma decrypt_dataKey_gives: "decrypt prims DataKey data \<noteq> Raises"
  by (simp add: decrypt_def decryptWithDataKey_gives)

lemma decryptLegacy_short:
  assumes "\<And>encrypted nonce. length nonce \<noteq> 24 \<Longrightarrow> secretboxOpen prims encrypted nonce = Raises"
    and "length data < 24"
  shows "decrypt prims Legacy data = Raises"
  using assms by (simp add: decrypt_def decryptLegacy_def)

lemma heldAt_nonempty: "heldAt x ys \<noteq> []"
  by (cases ys) simp_all

lemma map_heldAt:
  "map g (butlast (heldAt x ys)) @ [g (last (heldAt x ys))] = map g (heldAt x ys)"
  by (metis heldAt_nonempty append_butlast_last_id list.simps(8,9) map_append)

lemma metadata_mismatch:
  assumes "encryptionVariant cl = variant"
  shows "\<exists>cl1. updateMetadataAttempt prims handler (Some (ResultVersionMismatch version blob)) cl =
                 Throws cl1 \<and>
           metadataField cl1 =
             adopt (metadataField cl) (version, decrypt prims variant (decodeBase64 prims blob)) \<and>
           emittedUpdateMetadata cl1 =
             emittedUpdateMetadata cl @ [(fst (metadataField cl), handler (snd (metadataField cl)))] \<and>
           agentStateField cl1 = agentStateField cl \<and>
           emittedUpdateState cl1 = emittedUpdateState cl \<and>
           encryptionVariant cl1 = variant"
  using assms
  by (cases "decrypt prims variant (decodeBase64 prims blob)")
     (auto simp: updateMetadataAttempt_def Let_def metadataField_def agentStateField_def adopt_def)

lemma agentState_mismatch:
  assumes "encryptionVariant cl = variant"
  shows "\<exists>cl1. updateAgentStateAttempt prims emptyState handler
                   (Some (ResultVersionMismatch version blob)) cl = Throws cl1 \<and>
           agentStateField cl1 =
             adopt (agentStateField cl) (version, decryptState prims variant blob) \<and>
           emittedUpdateState cl1 =
             emittedUpdateState cl @
             [(fst (agentStateField cl),
               handler (case snd (agentStateField cl) of None \<Rightarrow> emptyState | Some st \<Rightarrow> st))] \<and>
           metadataField cl1 = metadataField cl \<and>
           emittedUpdateMetadata cl1 = emittedUpdateMetadata cl \<and>
           encryptionVariant cl1 = variant"
  using assms
  by (cases "decryptState prims variant blob")
     (auto simp: updateAgentStateAttempt_def Let_def metadataField_def agentStateField_def adopt_def)

lemma updateMetadata_after_mismatches:
  assumes "encryptionVariant cl = variant"
  shows "\<exists>cl'. updateMetadata prims handler (mismatches ms @ rest) cl =
                 updateMetadata prims handler rest cl' \<and>
         metadataField cl' =
           last (heldAt (metadataField cl)
                  (map (\<lambda>(version, blob).
                          (version, decrypt prims variant (decodeBase64 prims blob))) ms)) \<and>
         emittedUpdateMetadata cl' =
           emittedUpdateMetadata cl @
           map (\<lambda>held. (fst held, handler (snd held)))
             (butlast (heldAt (metadataField cl)
                  (map (\<lambda>(version, blob).
                          (version, decrypt prims variant (decodeBase64 prims blob))) ms))) \<and>
         agentStateField cl' = agentStateField cl \<and>
         emittedUpdateState cl' = emittedUpdateState cl \<and>
         encryptionVariant cl' = variant"
  using assms
proof (induction ms arbitrary: cl)
  case Nil
  show ?case by (rule exI[of _ cl]) (simp add: mismatches_def Nil)
next
  case (Cons m ms)
  obtain version blob where m: "m = (version, blob)" by (cases m)
  from metadata_mismatch[OF Cons.prems, of prims handler version blob]
  obtain cl1 where cl1:
    "updateMetadataAttempt prims handler (Some (ResultVersionMismatch version blob)) cl = Throws cl1"
    "metadataField cl1 =
       adopt (metadataField cl) (version, decrypt prims variant (decodeBase64 prims blob))"
    "emittedUpdateMetadata cl1 =
       emittedUpdateMetadata cl @ [(fst (metadataField cl), handler (snd (metadataField cl)))]"
    "agentStateField cl1 = agentStateField cl"
    "emittedUpdateState cl1 = emittedUpdateState cl"
    "encryptionVariant cl1 = variant"
    by blast
  have step: "updateMetadata prims handler (mismatches (m # ms) @ rest) cl =
              updateMetadata prims handler (mismatches ms @ rest) cl1"
    by (simp add: updateMetadata_def mismatches_def m cl1(1))
  from Cons.IH[OF cl1(6)] obtain cl' where
    ih: "updateMetadata prims handler (mismatches ms @ rest) cl1 =
           updateMetadata prims handler rest cl'"
        "metadataField cl' =
           last (heldAt (metadataField cl1)
                  (map (\<lambda>(version, blob).
                          (version, decrypt prims variant (decodeBase64 prims blob))) ms))"
        "emittedUpdateMetadata cl' =
           emittedUpdateMetadata cl1 @
           map (\<lambda>held. (fst held, handler (snd held)))
             (butlast (heldAt (metadataField cl1)
                  (map (\<lambda>(version, blob).
                          (version, decrypt prims variant (decodeBase64 prims blob))) ms)))"
        "agentStateField cl' = agentStateField cl1" "emittedUpdateState cl' = emittedUpdateState cl1"
        "encryptionVariant cl' = variant"
    by blast
  show ?case
    apply (rule exI[of _ cl'])
    unfolding step ih(1) ih(2) ih(3) ih(4) ih(5) ih(6) cl1(2) cl1(3) cl1(4) cl1(5)
    by (simp add: m heldAt_nonempty)
qed

lemma updateAgentState_after_mismatches:
  assumes "encryptionVariant cl = variant"
  shows "\<exists>cl'. updateAgentState prims emptyState handler (mismatches ms @ rest) cl =
                 updateAgentState prims emptyState handler rest cl' \<and>
         agentStateField cl' =
           last (heldAt (agentStateField cl)
                  (map (\<lambda>(version, blob). (version, decryptState prims variant blob)) ms)) \<and>
         emittedUpdateState cl' =
           emittedUpdateState cl @
           map (\<lambda>held. (fst held, handler (case snd held of None \<Rightarrow> emptyState | Some st \<Rightarrow> st)))
             (butlast (heldAt (agentStateField cl)
                        (map (\<lambda>(version, blob). (version, decryptState prims variant blob)) ms))) \<and>
         metadataField cl' = metadataField cl \<and>
         emittedUpdateMetadata cl' = emittedUpdateMetadata cl \<and>
         encryptionVariant cl' = variant"
  using assms
proof (induction ms arbitrary: cl)
  case Nil
  show ?case by (rule exI[of _ cl]) (simp add: mismatches_def Nil)
next
  case (Cons m ms)
  obtain version blob where m: "m = (version, blob)" by (cases m)
  from agentState_mismatch[OF Cons.prems, of prims emptyState handler version blob]
  obtain cl1 where cl1:
    "updateAgentStateAttempt prims emptyState handler
       (Some (ResultVersionMismatch version blob)) cl = Throws cl1"
    "agentStateField cl1 = adopt (agentStateField cl) (version, decryptState prims variant blob)"
    "emittedUpdateState cl1 =
       emittedUpdateState cl @
       [(fst (agentStateField cl),
         handler (case snd (agentStateField cl) of None \<Rightarrow> emptyState | Some st \<Rightarrow> st))]"
    "metadataField cl1 = metadataField cl"
    "emittedUpdateMetadata cl1 = emittedUpdateMetadata cl"
    "encryptionVariant cl1 = variant"
    by blast
  have step: "updateAgentState prims emptyState handler (mismatches (m # ms) @ rest) cl =
              updateAgentState prims emptyState handler (mismatches ms @ rest) cl1"
    by (simp add: updateAgentState_def mismatches_def m cl1(1))
  from Cons.IH[OF cl1(6)] obtain cl' where
    ih: "updateAgentState prims emptyState handler (mismatches ms @ rest) cl1 =
           updateAgentState prims emptyState handler rest cl'"
        "agentStateField cl' =
           last (heldAt (agentStateField cl1)
                  (map (\<lambda>(version, blob). (version, decryptState prims variant blob)) ms))"
        "emittedUpdateState cl' =
           emittedUpdateState cl1 @
           map (\<lambda>held. (fst held, handler (case snd held of None \<Rightarrow> emptyState | Some st \<Rightarrow> st)))
             (butlast (heldAt (agentStateField cl1)
                        (map (\<lambda>(version, blob). (version, decryptState prims variant blob)) ms)))"
        "metadataField cl' = metadataField cl1" "emittedUpdateMetadata cl' = emittedUpdateMetadata cl1"
        "encryptionVariant cl' = variant"
    by blast
  show ?case
    apply (rule exI[of _ cl'])
    unfolding step ih(1) ih(2) ih(3) ih(4) ih(5) ih(6) cl1(2) cl1(3) cl1(4) cl1(5)
    by (simp add: m heldAt_nonempty)
qed

lemma heldAt_adopted:
  assumes "sorted_wrt (<) (fst held # map fst ms)"
    and "\<forall>(version, blob) \<in> set ms. dec blob = Gives (plain blob)"
  shows "heldAt held (map (\<lambda>(version, blob). (version, dec blob)) ms) =
           held # map (\<lambda>(version, blob). (version, plain blob)) ms"
  using assms
proof (induction ms arbitrary: held)
  case Nil
  show ?case by simp
next
  case (Cons m ms)
  obtain version blob where m: "m = (version, blob)" by (cases m)
  from Cons.prems have d: "fst held < version" "dec blob = Gives (plain blob)"
    by (simp_all add: m)
  have a: "adopt held (version, Gives (plain blob)) = (version, plain blob)"
    using d by (simp add: adopt_def)
  have "sorted_wrt (<) (fst (version, plain blob) # map fst ms)"
    using Cons.prems(1) by (simp add: m)
  moreover have "\<forall>(version, blob) \<in> set ms. dec blob = Gives (plain blob)"
    using Cons.prems(2) by simp
  ultimately have "heldAt (version, plain blob) (map (\<lambda>(version, blob). (version, dec blob)) ms) =
           (version, plain blob) # map (\<lambda>(version, blob). (version, plain blob)) ms"
    by (rule Cons.IH)
  then show ?case using d by (simp add: m a)
qed

lemma updateMetadata_converges:
  assumes variant: "encryptionVariant cl = variant"
    and growing: "sorted_wrt (<) (metadataVersion cl # map fst ms)"
    and opened: "\<forall>(version, blob) \<in> set ms.
                   decrypt prims variant (decodeBase64 prims blob) = Gives (plain blob)"
    and stored: "decrypt prims variant (decodeBase64 prims blobS) = Gives stored"
  shows "\<exists>cl'. updateMetadata prims handler (mismatches ms @ ResultSuccess versionS blobS # rest) cl =
                 Returns cl' \<and>
           metadataField cl' = (versionS, stored) \<and>
           emittedUpdateMetadata cl' =
             emittedUpdateMetadata cl @
             map (\<lambda>held. (fst held, handler (snd held)))
               (metadataField cl # map (\<lambda>(version, blob). (version, plain blob)) ms) \<and>
           agentStateField cl' = agentStateField cl"
proof -
  let ?dec = "\<lambda>blob. decrypt prims variant (decodeBase64 prims blob)"
  let ?held = "heldAt (metadataField cl) (map (\<lambda>(version, blob). (version, ?dec blob)) ms)"
  let ?g = "\<lambda>held. (fst held, handler (snd held))"
  have h: "?held = metadataField cl # map (\<lambda>(version, blob). (version, plain blob)) ms"
    using growing opened by (intro heldAt_adopted) (simp_all add: metadataField_def)
  from updateMetadata_after_mismatches[OF variant, of prims handler ms "ResultSuccess versionS blobS # rest"]
  obtain c1 where c1:
    "updateMetadata prims handler (mismatches ms @ ResultSuccess versionS blobS # rest) cl =
       updateMetadata prims handler (ResultSuccess versionS blobS # rest) c1"
    "metadataField c1 = last ?held"
    "emittedUpdateMetadata c1 = emittedUpdateMetadata cl @ map ?g (butlast ?held)"
    "agentStateField c1 = agentStateField cl"
    "encryptionVariant c1 = variant"
    by blast
  let ?cl' = "c1\<lparr>emittedUpdateMetadata :=
                   emittedUpdateMetadata c1 @ [(metadataVersion c1, handler (metadata c1))],
                 metadata := stored, metadataVersion := versionS\<rparr>"
  have r: "updateMetadata prims handler (ResultSuccess versionS blobS # rest) c1 = Returns ?cl'"
    using stored c1(5) by (simp add: updateMetadata_def updateMetadataAttempt_def Let_def)
  have "metadataVersion c1 = fst (last ?held)" "metadata c1 = snd (last ?held)"
    unfolding c1(2)[symmetric] by (simp_all add: metadataField_def)
  then have "(metadataVersion c1, handler (metadata c1)) = ?g (last ?held)" by simp
  then have e: "emittedUpdateMetadata ?cl' = emittedUpdateMetadata cl @ map ?g ?held"
    unfolding c1(3) using map_heldAt[of ?g "metadataField cl"] by simp
  have "updateMetadata prims handler (mismatches ms @ ResultSuccess versionS blobS # rest) cl =
          Returns ?cl'"
    using c1(1) r by simp
  moreover have "metadataField ?cl' = (versionS, stored)" by (simp add: metadataField_def)
  moreover have "emittedUpdateMetadata ?cl' =
             emittedUpdateMetadata cl @
             map ?g (metadataField cl # map (\<lambda>(version, blob). (version, plain blob)) ms)"
    using e h by simp
  moreover have "agentStateField ?cl' = agentStateField cl"
    using c1(4) by (simp add: agentStateField_def)
  ultimately show ?thesis by blast
qed

lemma updateAgentState_converges:
  assumes variant: "encryptionVariant cl = variant"
    and growing: "sorted_wrt (<) (agentStateVersion cl # map fst ms)"
    and opened: "\<forall>(version, blob) \<in> set ms. decryptState prims variant blob = Gives (plain blob)"
    and stored: "decryptState prims variant blobS = Gives stored"
  shows "\<exists>cl'. updateAgentState prims emptyState handler
                   (mismatches ms @ ResultSuccess versionS blobS # rest) cl = Returns cl' \<and>
           agentStateField cl' = (versionS, stored) \<and>
           emittedUpdateState cl' =
             emittedUpdateState cl @
             map (\<lambda>held. (fst held, handler (case snd held of None \<Rightarrow> emptyState | Some st \<Rightarrow> st)))
               (agentStateField cl # map (\<lambda>(version, blob). (version, plain blob)) ms) \<and>
           metadataField cl' = metadataField cl"
proof -
  let ?dec = "\<lambda>blob. decryptState prims variant blob"
  let ?held = "heldAt (agentStateField cl) (map (\<lambda>(version, blob). (version, ?dec blob)) ms)"
  let ?g = "\<lambda>held. (fst held, handler (case snd held of None \<Rightarrow> emptyState | Some st \<Rightarrow> st))"
  have h: "?held = agentStateField cl # map (\<lambda>(version, blob). (version, plain blob)) ms"
    using growing opened by (intro heldAt_adopted) (simp_all add: agentStateField_def)
  from updateAgentState_after_mismatches[OF variant, of prims emptyState handler ms
      "ResultSuccess versionS blobS # rest"]
  obtain c1 where c1:
    "updateAgentState prims emptyState handler (mismatches ms @ ResultSuccess versionS blobS # rest) cl =
       updateAgentState prims emptyState handler (ResultSuccess versionS blobS # rest) c1"
    "agentStateField c1 = last ?held"
    "emittedUpdateState c1 = emittedUpdateState cl @ map ?g (butlast ?held)"
    "metadataField c1 = metadataField cl"
    "encryptionVariant c1 = variant"
    by blast
  let ?cl' = "c1\<lparr>emittedUpdateState :=
                   emittedUpdateState c1 @
                   [(agentStateVersion c1,
                     handler (case agentState c1 of None \<Rightarrow> emptyState | Some st \<Rightarrow> st))],
                 agentState := stored, agentStateVersion := versionS\<rparr>"
  have r: "updateAgentState prims emptyState handler (ResultSuccess versionS blobS # rest) c1 =
             Returns ?cl'"
    using stored c1(5) by (simp add: updateAgentState_def updateAgentStateAttempt_def Let_def)
  have "agentStateVersion c1 = fst (last ?held)" "agentState c1 = snd (last ?held)"
    unfolding c1(2)[symmetric] by (simp_all add: agentStateField_def)
  then have "(agentStateVersion c1,
              handler (case agentState c1 of None \<Rightarrow> emptyState | Some st \<Rightarrow> st)) =
             ?g (last ?held)" by simp
  then have e: "emittedUpdateState ?cl' = emittedUpdateState cl @ map ?g ?held"
    unfolding c1(3) using map_heldAt[of ?g "agentStateField cl"] by simp
  have "updateAgentState prims emptyState handler
          (mismatches ms @ ResultSuccess versionS blobS # rest) cl = Returns ?cl'"
    using c1(1) r by simp
  moreover have "agentStateField ?cl' = (versionS, stored)" by (simp add: agentStateField_def)
  moreover have "emittedUpdateState ?cl' =
             emittedUpdateState cl @
             map ?g (agentStateField cl # map (\<lambda>(version, blob). (version, plain blob)) ms)"
    using e h by simp
  moreover have "metadataField ?cl' = metadataField cl"
    using c1(4) by (simp add: metadataField_def)
  ultimately show ?thesis by blast
qed

lemma update_abandoned_on_error:
  "updateMetadata prims handler (ResultError # rest) cl =
     Returns (cl\<lparr>emittedUpdateMetadata :=
                   emittedUpdateMetadata cl @ [(metadataVersion cl, handler (metadata cl))]\<rparr>)"
  "updateAgentState prims emptyState handlerS (ResultError # restS) cl =
     Returns (cl\<lparr>emittedUpdateState :=
                   emittedUpdateState cl @
                   [(agentStateVersion cl,
                     handlerS (case agentState cl of None \<Rightarrow> emptyState | Some st \<Rightarrow> st))]\<rparr>)"
  by (simp_all add: updateMetadata_def updateMetadataAttempt_def updateAgentState_def
      updateAgentStateAttempt_def Let_def)


section \<open>Claims about the start of the daemon\<close>

text \<open>
  C3. When the check finds a daemon of the same version running, \<open>startDaemon\<close> prints
  \<open>Daemon already running with matching version\<close> and exits with code 0: the lock marker
  and the state file are as they were.
\<close>

theorem same_version_daemon_exits:
  assumes "isDaemonRunningCurrentlyInstalledHappyVersion (packageVersion me) h"
  shows "startDaemon me h =
           (Exit 0, h\<lparr>consoleLog := consoleLog h @ [''Daemon already running with matching version'']\<rparr>) \<and>
         stateFile (snd (startDaemon me h)) = stateFile h \<and>
         lockFile (snd (startDaemon me h)) = lockFile h"
  using assms by (simp add: startDaemon_def)

theorem same_version_daemon_exits_witness:
  "isDaemonRunningCurrentlyInstalledHappyVersion (packageVersion (secondDaemon ''1.0.0'')) runningHost \<and>
   fst (startDaemon (secondDaemon ''1.0.0'') runningHost) = Exit 0 \<and>
   consoleLog (snd (startDaemon (secondDaemon ''1.0.0'') runningHost)) =
     [''Daemon already running with matching version''] \<and>
   stateFile (snd (startDaemon (secondDaemon ''1.0.0'') runningHost)) = stateFile runningHost \<and>
   lockFile (snd (startDaemon (secondDaemon ''1.0.0'') runningHost)) = Some 500"
proof -
  have r: "isDaemonRunningCurrentlyInstalledHappyVersion (packageVersion (secondDaemon ''1.0.0'')) runningHost"
    by (simp add: isDaemonRunningCurrentlyInstalledHappyVersion_def readDaemonState_def
        runningHost_def secondDaemon_def)
  show ?thesis
    using r same_version_daemon_exits[OF r] by (simp add: runningHost_def)
qed


end
